theory Spec2Isabelle
  imports Complex_Main "HOL-Library.Sublist" "HOL-Library.Log_Nat"
begin

section \<open>Tensors\<close>

text \<open>
  The program is \<^verbatim>\<open>src/model.py\<close>: the class \<^verbatim>\<open>Matcha\<close> (a wrapper around a
  pretrained Pix2Struct backbone) and the class \<^verbatim>\<open>AWP\<close> (adversarial weight
  perturbation). The tensor library is not part of the program.

  An element of a tensor, or a Python number, is one of the values of an IEEE number:
  not-a-number, an infinity, or a finite number, which is a real (every finite
  floating-point number and every Python integer is one). The two zeros are one value:
  no result of this program depends on the sign of a zero.
\<close>

datatype scalar = NaN | NInf | Fin real | PInf

text \<open>
  The operations that are exact on these values, in every floating-point format: the
  test for not-a-number, the absolute value, the comparison \<open>\<le>\<close> (false whenever a
  side is not-a-number), and maximum and minimum. \<^verbatim>\<open>torch.max(a, b)\<close> and
  \<^verbatim>\<open>torch.min(a, b)\<close> on two tensors are element-wise, and an element that is
  not-a-number on either side gives not-a-number.
\<close>

fun s_isnan :: "scalar \<Rightarrow> bool" where
  "s_isnan NaN = True"
| "s_isnan _ = False"

fun s_abs :: "scalar \<Rightarrow> scalar" where
  "s_abs NaN = NaN"
| "s_abs NInf = PInf"
| "s_abs PInf = PInf"
| "s_abs (Fin a) = Fin \<bar>a\<bar>"

fun s_le :: "scalar \<Rightarrow> scalar \<Rightarrow> bool" where
  "s_le (Fin a) (Fin b) = (a \<le> b)"
| "s_le NaN _ = False"
| "s_le _ NaN = False"
| "s_le NInf _ = True"
| "s_le _ PInf = True"
| "s_le PInf _ = False"
| "s_le _ NInf = False"

definition s_max :: "scalar \<Rightarrow> scalar \<Rightarrow> scalar" where
  "s_max x y = (if s_isnan x \<or> s_isnan y then NaN else if s_le x y then y else x)"

definition s_min :: "scalar \<Rightarrow> scalar \<Rightarrow> scalar" where
  "s_min x y = (if s_isnan x \<or> s_isnan y then NaN else if s_le x y then x else y)"

text \<open>
  A tensor is the list of its elements (its shape plays no role in this program). A
  tensor of no dimension, such as a norm, is a scalar. The gradient of a parameter has
  the shape of the parameter, and the tensors of one binary operation of this program
  have equal shapes.
\<close>

type_synonym tensor = "scalar list"

definition torch_max :: "tensor \<Rightarrow> tensor \<Rightarrow> tensor" where
  "torch_max a b = map2 s_max a b"

definition torch_min :: "tensor \<Rightarrow> tensor \<Rightarrow> tensor" where
  "torch_min a b = map2 s_min a b"

definition tensor_abs :: "tensor \<Rightarrow> tensor" where
  "tensor_abs a = map s_abs a"

text \<open>Element-wise \<open>\<le>\<close> of two tensors of one shape, and a tensor with no not-a-number.\<close>

definition tensor_le :: "tensor \<Rightarrow> tensor \<Rightarrow> bool" where
  "tensor_le a b = list_all2 s_le a b"

definition no_nan :: "tensor \<Rightarrow> bool" where
  "no_nan t = list_all (\<lambda>x. \<not> s_isnan x) t"

text \<open>
  The operations that round. Sum, difference, product and quotient of two numbers, and
  the norm of a tensor (\<^verbatim>\<open>torch.norm\<close>), give the value that the tensor library
  computes in the floating-point format of its tensors: a rounded value, an infinity on
  overflow, zero on underflow. What they give depends on the format and, for the norm,
  on the order in which the library adds. They are parameters of the model: every
  theorem about the controller holds for every such arithmetic.
\<close>

record arithmetic =
  fl_add :: "scalar \<Rightarrow> scalar \<Rightarrow> scalar"
  fl_sub :: "scalar \<Rightarrow> scalar \<Rightarrow> scalar"
  fl_mul :: "scalar \<Rightarrow> scalar \<Rightarrow> scalar"
  fl_div :: "scalar \<Rightarrow> scalar \<Rightarrow> scalar"
  torch_norm :: "tensor \<Rightarrow> scalar"

text \<open>Element-wise sum and difference of two tensors.\<close>

definition tensor_add :: "arithmetic \<Rightarrow> tensor \<Rightarrow> tensor \<Rightarrow> tensor" where
  "tensor_add ar a b = map2 (fl_add ar) a b"

definition tensor_sub :: "arithmetic \<Rightarrow> tensor \<Rightarrow> tensor \<Rightarrow> tensor" where
  "tensor_sub ar a b = map2 (fl_sub ar) a b"

text \<open>A Python number times a tensor, a tensor over and times a tensor of no dimension.\<close>

definition scalar_mul :: "arithmetic \<Rightarrow> scalar \<Rightarrow> tensor \<Rightarrow> tensor" where
  "scalar_mul ar c a = map (fl_mul ar c) a"

definition tensor_div_scalar :: "arithmetic \<Rightarrow> tensor \<Rightarrow> scalar \<Rightarrow> tensor" where
  "tensor_div_scalar ar a c = map (\<lambda>x. fl_div ar x c) a"

definition tensor_mul_scalar :: "arithmetic \<Rightarrow> tensor \<Rightarrow> scalar \<Rightarrow> tensor" where
  "tensor_mul_scalar ar a c = map (\<lambda>x. fl_mul ar x c) a"

section \<open>The model and the perturbation controller\<close>

text \<open>
  A parameter has a value (\<^verbatim>\<open>param.data\<close>), a gradient slot (\<^verbatim>\<open>param.grad\<close>, None or
  a tensor) and the flag \<^verbatim>\<open>requires_grad\<close>. \<^verbatim>\<open>model.named_parameters()\<close> is the
  list of the pairs of a name and a parameter, in the model's order.
\<close>

record param =
  requires_grad :: bool
  grad :: "tensor option"
  data :: tensor

type_synonym named_parameters = "(string \<times> param) list"

datatype error = KeyError | ExternalError

text \<open>The calls to code outside the program that \<^verbatim>\<open>attack_backward\<close> makes.\<close>

datatype call = Forward | ZeroGrad | Backward

text \<open>
  The object of class \<^verbatim>\<open>AWP\<close>, with the named parameters of its model. \<open>calls\<close>
  is not a field of the class: it records the calls made to the model, the optimizer
  and the accelerator, in order.
\<close>

record awp =
  model :: named_parameters
  adv_param :: string
  adv_lr :: scalar
  adv_eps :: scalar
  backup :: "string \<rightharpoonup> tensor"
  backup_eps :: "string \<rightharpoonup> tensor \<times> tensor"
  calls :: "call list"

text \<open>\<^verbatim>\<open>AWP.__init__\<close>: both mappings start empty.\<close>

definition AWP_init :: "named_parameters \<Rightarrow> string \<Rightarrow> scalar \<Rightarrow> scalar \<Rightarrow> awp" where
  "AWP_init m p lr eps =
     \<lparr>model = m, adv_param = p, adv_lr = lr, adv_eps = eps,
      backup = Map.empty, backup_eps = Map.empty, calls = []\<rparr>"

text \<open>
  The condition of \<^verbatim>\<open>_save\<close> and \<^verbatim>\<open>_attack_step\<close>:
  \<^verbatim>\<open>param.requires_grad and param.grad is not None and self.adv_param in name\<close>.
\<close>

definition matched :: "string \<Rightarrow> string \<Rightarrow> param \<Rightarrow> bool" where
  "matched sub name p = (requires_grad p \<and> grad p \<noteq> None \<and> sublist sub name)"

text \<open>\<^verbatim>\<open>AWP._save\<close>: the loop over the named parameters, then the method.\<close>

fun save_loop :: "arithmetic \<Rightarrow> scalar \<Rightarrow> string \<Rightarrow> named_parameters \<Rightarrow>
    (string \<rightharpoonup> tensor) \<times> (string \<rightharpoonup> tensor \<times> tensor) \<Rightarrow>
    (string \<rightharpoonup> tensor) \<times> (string \<rightharpoonup> tensor \<times> tensor)" where
  "save_loop ar eps sub [] (b, be) = (b, be)"
| "save_loop ar eps sub ((name, p) # rest) (b, be) =
     (if matched sub name p then
        (if b name = None then
           (let b' = b(name \<mapsto> data p);
                grad_eps = scalar_mul ar eps (tensor_abs (data p));
                be' = be(name \<mapsto> (tensor_sub ar (data p) grad_eps, tensor_add ar (data p) grad_eps))
            in save_loop ar eps sub rest (b', be'))
         else save_loop ar eps sub rest (b, be))
      else save_loop ar eps sub rest (b, be))"

definition save :: "arithmetic \<Rightarrow> awp \<Rightarrow> awp" where
  "save ar st =
     (case save_loop ar (adv_eps st) (adv_param st) (model st) (backup st, backup_eps st) of
        (b, be) \<Rightarrow> st\<lparr>backup := b, backup_eps := be\<rparr>)"

text \<open>
  \<^verbatim>\<open>AWP._attack_step\<close>. \<^verbatim>\<open>e = 1e-6\<close> is a Python float: the double
  \<open>4722366482869645 / 2 ^ 72\<close>. \<^verbatim>\<open>self.backup_eps[name]\<close> raises KeyError when the
  name has no clamp interval.
\<close>

definition e :: scalar where
  "e = Fin (4722366482869645 / 2 ^ 72)"

definition r_at :: "arithmetic \<Rightarrow> scalar \<Rightarrow> tensor \<Rightarrow> scalar \<Rightarrow> scalar \<Rightarrow> tensor" where
  "r_at ar lr g norm1 norm2 =
     tensor_mul_scalar ar
       (tensor_div_scalar ar (scalar_mul ar lr g) (fl_add ar norm1 e))
       (fl_add ar norm2 e)"

definition attack_param ::
    "arithmetic \<Rightarrow> scalar \<Rightarrow> string \<Rightarrow> (string \<rightharpoonup> tensor \<times> tensor) \<Rightarrow> string \<Rightarrow> param \<Rightarrow> error + param" where
  "attack_param ar lr sub be name p =
     (if matched sub name p then
        (case grad p of
           None \<Rightarrow> Inr p
         | Some g \<Rightarrow>
            (let norm1 = torch_norm ar g;
                 norm2 = torch_norm ar (data p)
             in if norm1 \<noteq> Fin 0 \<and> \<not> s_isnan norm1 then
                  (let d = tensor_add ar (data p) (r_at ar lr g norm1 norm2)
                   in case be name of
                        None \<Rightarrow> Inl KeyError
                      | Some (lower, upper) \<Rightarrow>
                          Inr (p\<lparr>data := torch_min (torch_max d lower) upper\<rparr>))
                else Inr p))
      else Inr p)"

fun attack_loop ::
    "arithmetic \<Rightarrow> scalar \<Rightarrow> string \<Rightarrow> (string \<rightharpoonup> tensor \<times> tensor) \<Rightarrow> named_parameters \<Rightarrow>
     error + named_parameters" where
  "attack_loop ar lr sub be [] = Inr []"
| "attack_loop ar lr sub be ((name, p) # rest) =
     (case attack_param ar lr sub be name p of
        Inl err \<Rightarrow> Inl err
      | Inr p' \<Rightarrow>
         (case attack_loop ar lr sub be rest of
            Inl err \<Rightarrow> Inl err
          | Inr rest' \<Rightarrow> Inr ((name, p') # rest')))"

definition attack_step :: "arithmetic \<Rightarrow> awp \<Rightarrow> error + awp" where
  "attack_step ar st =
     (case attack_loop ar (adv_lr st) (adv_param st) (backup_eps st) (model st) of
        Inl err \<Rightarrow> Inl err
      | Inr m \<Rightarrow> Inr (st\<lparr>model := m\<rparr>))"

text \<open>\<^verbatim>\<open>AWP._restore\<close>.\<close>

definition restore_param :: "(string \<rightharpoonup> tensor) \<Rightarrow> string \<times> param \<Rightarrow> string \<times> param" where
  "restore_param b np =
     (case b (fst np) of
        None \<Rightarrow> np
      | Some v \<Rightarrow> (fst np, (snd np)\<lparr>data := v\<rparr>))"

definition restore :: "awp \<Rightarrow> awp" where
  "restore st =
     st\<lparr>model := map (restore_param (backup st)) (model st),
        backup := Map.empty, backup_eps := Map.empty\<rparr>"

text \<open>
  The code outside the program that one cycle calls: the model's forward pass
  (\<^verbatim>\<open>self.model(...)\<close>, which returns the loss and a mapping of losses),
  \<^verbatim>\<open>self.optimizer.zero_grad()\<close> and \<^verbatim>\<open>accelerator.backward(adv_loss)\<close>. Each may
  raise, and each may change the parameters of the model in any way.
\<close>

record ('v, 'l) env =
  model_call :: "'v \<Rightarrow> 'v \<Rightarrow> 'v \<Rightarrow> named_parameters \<Rightarrow>
                 error + (('l \<times> (string \<rightharpoonup> 'l)) \<times> named_parameters)"
  zero_grad :: "named_parameters \<Rightarrow> error + named_parameters"
  backward :: "'l \<Rightarrow> named_parameters \<Rightarrow> error + named_parameters"

text \<open>
  \<^verbatim>\<open>AWP.attack_backward\<close>. The batch is a dict; a missing key raises KeyError when
  the arguments of the forward pass are evaluated.
\<close>

definition batch_get :: "(string \<rightharpoonup> 'v) \<Rightarrow> string \<Rightarrow> error + 'v" where
  "batch_get batch k = (case batch k of None \<Rightarrow> Inl KeyError | Some v \<Rightarrow> Inr v)"

definition adversarial_pass ::
    "('v, 'l) env \<Rightarrow> (string \<rightharpoonup> 'v) \<Rightarrow> awp \<Rightarrow> error + awp" where
  "adversarial_pass ev batch st =
     (case batch_get batch ''flattened_patches'' of Inl err \<Rightarrow> Inl err | Inr fp \<Rightarrow>
     (case batch_get batch ''attention_mask'' of Inl err \<Rightarrow> Inl err | Inr am \<Rightarrow>
     (case batch_get batch ''labels'' of Inl err \<Rightarrow> Inl err | Inr lb \<Rightarrow>
     (case model_call ev fp am lb (model st) of Inl err \<Rightarrow> Inl err
      | Inr ((adv_loss, _), m1) \<Rightarrow>
     (case zero_grad ev m1 of Inl err \<Rightarrow> Inl err | Inr m2 \<Rightarrow>
     (case backward ev adv_loss m2 of Inl err \<Rightarrow> Inl err | Inr m3 \<Rightarrow>
        Inr (st\<lparr>model := m3,
                calls := calls st @ [Forward, ZeroGrad, Backward]\<rparr>)))))))"

definition attack_backward ::
    "arithmetic \<Rightarrow> ('v, 'l) env \<Rightarrow> (string \<rightharpoonup> 'v) \<Rightarrow> awp \<Rightarrow> error + awp" where
  "attack_backward ar ev batch st =
     (if adv_lr st = Fin 0 then Inr st
      else
        (case attack_step ar (save ar st) of
           Inl err \<Rightarrow> Inl err
         | Inr st1 \<Rightarrow>
            (case adversarial_pass ev batch st1 of
               Inl err \<Rightarrow> Inl err
             | Inr st2 \<Rightarrow> Inr (restore st2))))"

text \<open>
  The life cycle of the two mappings. A controller is \<open>Idle\<close> from its construction
  to the first \<^verbatim>\<open>_save\<close> and after every \<^verbatim>\<open>_restore\<close>, and \<open>Perturbed\<close> between
  a \<^verbatim>\<open>_save\<close> and the next \<^verbatim>\<open>_restore\<close>. Code outside the controller (the
  forward and backward passes, the optimizer) changes the model only.
\<close>

datatype phase = Idle | Perturbed

inductive reach :: "arithmetic \<Rightarrow> phase \<Rightarrow> awp \<Rightarrow> bool" for ar :: arithmetic where
  reach_init: "reach ar Idle (AWP_init m sub lr eps)"
| reach_save: "reach ar ph st \<Longrightarrow> reach ar Perturbed (save ar st)"
| reach_attack: "reach ar ph st \<Longrightarrow> attack_step ar st = Inr st' \<Longrightarrow> reach ar ph st'"
| reach_restore: "reach ar ph st \<Longrightarrow> reach ar Idle (restore st)"
| reach_outside: "reach ar ph st \<Longrightarrow> reach ar ph (st\<lparr>model := m, calls := c\<rparr>)"

section \<open>The model wrapper\<close>

text \<open>
  \<^verbatim>\<open>int(0.4 * backbone_config.num_hidden_layers)\<close>. The product is a product of
  doubles: the literal \<^verbatim>\<open>0.4\<close> is the double \<open>7205759403792794 / 2 ^ 54\<close>, the layer
  count is converted to a double, and the exact product is rounded to 53 significant
  bits, to nearest, ties to even. \<open>round_sig53\<close> rounds a natural number so; a
  conversion of an integer of \<open>2 ^ 1024\<close> or more (after rounding) raises OverflowError.
  \<^verbatim>\<open>int\<close> of a double that is not negative is its integer part.
\<close>

datatype init_error = OverflowError | LoadError

definition round_sig53 :: "nat \<Rightarrow> nat" where
  "round_sig53 m =
     (let s = floorlog 2 m - 53;
          q = m div 2 ^ s;
          r = m mod 2 ^ s
      in if s = 0 then m
         else if 2 ^ (s - 1) < r \<or> (r = 2 ^ (s - 1) \<and> odd q) then (q + 1) * 2 ^ s
         else q * 2 ^ s)"

definition double_0_4 :: nat where
  "double_0_4 = 7205759403792794"

definition to_freeze_layer :: "nat \<Rightarrow> init_error + nat" where
  "to_freeze_layer num_hidden_layers =
     (let x = round_sig53 num_hidden_layers
      in if 2 ^ 1024 \<le> x then Inl OverflowError
         else Inr (round_sig53 (double_0_4 * x) div 2 ^ 54))"

text \<open>
  The backbone, as far as the constructor reads it: \<^verbatim>\<open>backbone.encoder.layer\<close> is the
  list of the encoder layers, each with its \<^verbatim>\<open>parameters()\<close>;
  \<^verbatim>\<open>backbone.embeddings.parameters()\<close>; and the parameters of \<^verbatim>\<open>backbone.decoder\<close>.
\<close>

record backbone =
  encoder_layer :: "param list list"
  embeddings :: "param list"
  decoder :: "param list"

record text_config =
  max_length :: int
  is_decoder :: bool
  pad_token_id :: int
  decoder_start_token_id :: int
  bos_token_id :: int

record backbone_config =
  num_hidden_layers :: nat
  text_cfg :: text_config

text \<open>\<^verbatim>\<open>cfg\<close>: the fields of \<^verbatim>\<open>cfg.model\<close> and \<^verbatim>\<open>cfg.get("from_checkpoint_dir")\<close>.\<close>

record cfg =
  backbone_path :: string
  cfg_max_length :: int
  cfg_pad_token_id :: int
  cfg_decoder_start_token_id :: int
  cfg_bos_token_id :: int
  len_tokenizer :: nat
  from_checkpoint_dir :: "string option"

text \<open>
  A checkpoint file holds a dict. Its values are tensors, or dicts again (a checkpoint
  that wraps the parameters under the key \<^verbatim>\<open>state_dict\<close>).
\<close>

datatype pyobj = PTensor tensor | PDict "(string \<times> pyobj) list"

text \<open>
  The library calls of the constructor: \<^verbatim>\<open>Pix2StructConfig.from_pretrained\<close>,
  \<^verbatim>\<open>Pix2StructForConditionalGeneration.from_pretrained\<close>, \<^verbatim>\<open>torch.load\<close>,
  \<^verbatim>\<open>load_state_dict(..., strict=False)\<close> and \<^verbatim>\<open>resize_token_embeddings\<close> on the
  decoder. Each may raise.
\<close>

record library =
  config_from_pretrained :: "string \<Rightarrow> init_error + backbone_config"
  model_from_pretrained :: "string \<Rightarrow> backbone_config \<Rightarrow> init_error + backbone"
  torch_load :: "string \<Rightarrow> init_error + (string \<times> pyobj) list"
  load_state_dict :: "pyobj \<Rightarrow> backbone \<Rightarrow> init_error + backbone"
  resize_token_embeddings :: "nat \<Rightarrow> param list \<Rightarrow> init_error + param list"

text \<open>
  \<^verbatim>\<open>Matcha.__init__\<close> up to the freezing: the configuration, the pretrained backbone
  and the checkpoint. \<^verbatim>\<open>cfg.get("from_checkpoint_dir")\<close> is true for a string that
  is not empty. The object has no attribute \<^verbatim>\<open>optimizer\<close> at this point, so the
  branch that loads an optimizer state is never taken.
\<close>

definition load_checkpoint :: "library \<Rightarrow> string \<Rightarrow> backbone \<Rightarrow> init_error + backbone" where
  "load_checkpoint lib checkpoint_path bb =
     (case torch_load lib checkpoint_path of
        Inl err \<Rightarrow> Inl err
      | Inr checkpoint \<Rightarrow>
         (case map_of checkpoint ''state_dict'' of
            Some sd \<Rightarrow> load_state_dict lib sd bb
          | None \<Rightarrow> load_state_dict lib (PDict checkpoint) bb))"

definition load_backbone :: "library \<Rightarrow> cfg \<Rightarrow> init_error + (backbone_config \<times> backbone)" where
  "load_backbone lib c =
     (case config_from_pretrained lib (backbone_path c) of
        Inl err \<Rightarrow> Inl err
      | Inr c0 \<Rightarrow>
         (let backbone_config = c0\<lparr>text_cfg :=
                \<lparr>max_length = cfg_max_length c, is_decoder = True,
                 pad_token_id = cfg_pad_token_id c,
                 decoder_start_token_id = cfg_decoder_start_token_id c,
                 bos_token_id = cfg_bos_token_id c\<rparr>\<rparr>
          in case model_from_pretrained lib (backbone_path c) backbone_config of
               Inl err \<Rightarrow> Inl err
             | Inr bb \<Rightarrow>
                (case from_checkpoint_dir c of
                   None \<Rightarrow> Inr (backbone_config, bb)
                 | Some dir \<Rightarrow>
                    if dir = [] then Inr (backbone_config, bb)
                    else (case load_checkpoint lib dir bb of
                            Inl err \<Rightarrow> Inl err
                          | Inr bb' \<Rightarrow> Inr (backbone_config, bb')))))"

text \<open>
  The freezing: the loop over \<^verbatim>\<open>self.backbone.encoder.layer[:to_freeze_layer]\<close> and
  the loop over the embedding parameters set \<^verbatim>\<open>requires_grad = False\<close>.
\<close>

definition freeze :: "param \<Rightarrow> param" where
  "freeze p = p\<lparr>requires_grad := False\<rparr>"

definition freeze_encoder :: "nat \<Rightarrow> backbone \<Rightarrow> backbone" where
  "freeze_encoder k bb =
     bb\<lparr>encoder_layer :=
          map (map freeze) (take k (encoder_layer bb)) @ drop k (encoder_layer bb),
        embeddings := map freeze (embeddings bb)\<rparr>"

text \<open>\<^verbatim>\<open>Matcha.__init__\<close>: load, freeze, then resize the embeddings of the decoder.\<close>

definition Matcha_init :: "library \<Rightarrow> cfg \<Rightarrow> init_error + backbone" where
  "Matcha_init lib c =
     (case load_backbone lib c of
        Inl err \<Rightarrow> Inl err
      | Inr (backbone_config, bb) \<Rightarrow>
         (case to_freeze_layer (num_hidden_layers backbone_config) of
            Inl err \<Rightarrow> Inl err
          | Inr k \<Rightarrow>
             (let bb' = freeze_encoder k bb
              in case resize_token_embeddings lib (len_tokenizer c) (decoder bb') of
                   Inl err \<Rightarrow> Inl err
                 | Inr d \<Rightarrow> Inr (bb'\<lparr>decoder := d\<rparr>))))"

text \<open>
  \<^verbatim>\<open>Matcha.forward\<close>. The backbone's forward pass is library code: it returns the
  outputs, of which \<^verbatim>\<open>outputs.loss\<close> is read, and may raise or change the model.
\<close>

record ('l, 'g) outputs =
  loss :: 'l
  logits :: 'g

definition forward ::
    "('v \<Rightarrow> 'v \<Rightarrow> 'v \<Rightarrow> named_parameters \<Rightarrow> error + (('l, 'g) outputs \<times> named_parameters)) \<Rightarrow>
     'v \<Rightarrow> 'v \<Rightarrow> 'v \<Rightarrow> named_parameters \<Rightarrow>
     error + (('l \<times> (string \<rightharpoonup> 'l)) \<times> named_parameters)" where
  "forward backbone_call flattened_patches attention_mask labels m =
     (case backbone_call flattened_patches attention_mask labels m of
        Inl err \<Rightarrow> Inl err
      | Inr (outs, m') \<Rightarrow>
         (let loss_main = loss outs;
              total = loss_main;
              loss_dict = [''loss_main'' \<mapsto> loss_main, ''loss_cls'' \<mapsto> total]
          in Inr ((total, loss_dict), m')))"

section \<open>Example inputs\<close>

text \<open>
  The arithmetic of the examples does not round: it is IEEE 754 on not-a-number and
  the infinities, and exact on finite numbers, where a floating-point arithmetic gives
  the nearest number of its format. In the states that the examples show, every value
  is a number that binary floating-point formats hold exactly, and is the same with
  rounding: the parameter values, the intervals (the tolerance is a half) and the
  clamped values, which are bounds of intervals.
\<close>

fun exact_neg :: "scalar \<Rightarrow> scalar" where
  "exact_neg NaN = NaN"
| "exact_neg NInf = PInf"
| "exact_neg PInf = NInf"
| "exact_neg (Fin a) = Fin (- a)"

fun exact_add :: "scalar \<Rightarrow> scalar \<Rightarrow> scalar" where
  "exact_add (Fin a) (Fin b) = Fin (a + b)"
| "exact_add NaN _ = NaN"
| "exact_add _ NaN = NaN"
| "exact_add PInf NInf = NaN"
| "exact_add NInf PInf = NaN"
| "exact_add PInf _ = PInf"
| "exact_add _ PInf = PInf"
| "exact_add NInf _ = NInf"
| "exact_add _ NInf = NInf"

definition exact_sub :: "scalar \<Rightarrow> scalar \<Rightarrow> scalar" where
  "exact_sub x y = exact_add x (exact_neg y)"

definition signed_inf :: "real \<Rightarrow> scalar" where
  "signed_inf a = (if a = 0 then NaN else if 0 < a then PInf else NInf)"

fun exact_mul :: "scalar \<Rightarrow> scalar \<Rightarrow> scalar" where
  "exact_mul (Fin a) (Fin b) = Fin (a * b)"
| "exact_mul NaN _ = NaN"
| "exact_mul _ NaN = NaN"
| "exact_mul (Fin a) PInf = signed_inf a"
| "exact_mul (Fin a) NInf = signed_inf (- a)"
| "exact_mul PInf (Fin b) = signed_inf b"
| "exact_mul NInf (Fin b) = signed_inf (- b)"
| "exact_mul PInf PInf = PInf"
| "exact_mul NInf NInf = PInf"
| "exact_mul PInf NInf = NInf"
| "exact_mul NInf PInf = NInf"

fun exact_div :: "scalar \<Rightarrow> scalar \<Rightarrow> scalar" where
  "exact_div (Fin a) (Fin b) = (if b = 0 then signed_inf a else Fin (a / b))"
| "exact_div NaN _ = NaN"
| "exact_div _ NaN = NaN"
| "exact_div (Fin a) PInf = Fin 0"
| "exact_div (Fin a) NInf = Fin 0"
| "exact_div PInf (Fin b) = (if 0 \<le> b then PInf else NInf)"
| "exact_div NInf (Fin b) = (if 0 \<le> b then NInf else PInf)"
| "exact_div PInf PInf = NaN"
| "exact_div PInf NInf = NaN"
| "exact_div NInf PInf = NaN"
| "exact_div NInf NInf = NaN"

fun exact_sqrt :: "scalar \<Rightarrow> scalar" where
  "exact_sqrt NaN = NaN"
| "exact_sqrt NInf = NaN"
| "exact_sqrt PInf = PInf"
| "exact_sqrt (Fin a) = (if a < 0 then NaN else Fin (sqrt a))"

definition exact_norm :: "tensor \<Rightarrow> scalar" where
  "exact_norm t = exact_sqrt (foldr (\<lambda>x acc. exact_add (exact_mul x x) acc) t (Fin 0))"

definition exact :: arithmetic where
  "exact = \<lparr>fl_add = exact_add, fl_sub = exact_sub, fl_mul = exact_mul, fl_div = exact_div,
            torch_norm = exact_norm\<rparr>"

text \<open>
  A model of three parameters, a controller on it with the filter \<^verbatim>\<open>weight\<close>, and a
  forward pass, optimizer and accelerator that return at once; the state this controller
  is in after one cycle; and two controllers on a model of one parameter, one with an
  infinite gradient and one with a negative tolerance.
\<close>

definition example_model :: named_parameters where
  "example_model =
     [(''encoder.weight'', \<lparr>requires_grad = True, grad = Some [Fin 2], data = [Fin 1]\<rparr>),
      (''encoder.bias'', \<lparr>requires_grad = True, grad = Some [Fin 1], data = [Fin 5]\<rparr>),
      (''decoder.weight'', \<lparr>requires_grad = True, grad = Some [Fin 0], data = [Fin 3]\<rparr>)]"

definition example_awp :: awp where
  "example_awp = AWP_init example_model ''weight'' (Fin 1) (Fin (1 / 2))"

definition example_env :: "(int, int) env" where
  "example_env =
     \<lparr>model_call = (\<lambda>fp am lb m. Inr ((0, Map.empty), m)),
      zero_grad = (\<lambda>m. Inr (map (\<lambda>np. (fst np, (snd np)\<lparr>grad := None\<rparr>)) m)),
      backward = (\<lambda>l m. Inr m)\<rparr>"

definition example_batch :: "string \<rightharpoonup> int" where
  "example_batch = [''flattened_patches'' \<mapsto> 0, ''attention_mask'' \<mapsto> 0, ''labels'' \<mapsto> 0]"

definition example_final :: awp where
  "example_final =
     \<lparr>model =
        [(''encoder.weight'', \<lparr>requires_grad = True, grad = None, data = [Fin 1]\<rparr>),
         (''encoder.bias'', \<lparr>requires_grad = True, grad = None, data = [Fin 5]\<rparr>),
         (''decoder.weight'', \<lparr>requires_grad = True, grad = None, data = [Fin 3]\<rparr>)],
      adv_param = ''weight'', adv_lr = Fin 1, adv_eps = Fin (1 / 2),
      backup = Map.empty, backup_eps = Map.empty,
      calls = [Forward, ZeroGrad, Backward]\<rparr>"

definition inf_grad_awp :: awp where
  "inf_grad_awp =
     AWP_init [(''weight'', \<lparr>requires_grad = True, grad = Some [PInf], data = [Fin 1]\<rparr>)]
       ''weight'' (Fin 1) (Fin (1 / 2))"

definition negative_eps_awp :: awp where
  "negative_eps_awp =
     AWP_init [(''weight'', \<lparr>requires_grad = True, grad = Some [Fin 1], data = [Fin 1]\<rparr>)]
       ''weight'' (Fin 1) (Fin (- 1 / 2))"

text \<open>
  A backbone of ten encoder layers of one trainable parameter each, a library that
  returns it with a configuration of ten hidden layers, and a backbone forward pass
  that returns the loss 7.
\<close>

definition trainable :: "real \<Rightarrow> param" where
  "trainable r = \<lparr>requires_grad = True, grad = None, data = [Fin r]\<rparr>"

definition example_backbone :: backbone where
  "example_backbone =
     \<lparr>encoder_layer =
        [[trainable 0], [trainable 1], [trainable 2], [trainable 3], [trainable 4],
         [trainable 5], [trainable 6], [trainable 7], [trainable 8], [trainable 9]],
      embeddings = [trainable 10],
      decoder = [trainable 11]\<rparr>"

definition example_library :: library where
  "example_library =
     \<lparr>config_from_pretrained = (\<lambda>path. Inr \<lparr>num_hidden_layers = 10,
         text_cfg = \<lparr>max_length = 20, is_decoder = False, pad_token_id = 0,
                     decoder_start_token_id = 0, bos_token_id = 0\<rparr>\<rparr>),
      model_from_pretrained = (\<lambda>path config. Inr example_backbone),
      torch_load = (\<lambda>path. Inl LoadError),
      load_state_dict = (\<lambda>sd bb. Inr bb),
      resize_token_embeddings = (\<lambda>n ps. Inr ps)\<rparr>"

definition example_cfg :: cfg where
  "example_cfg =
     \<lparr>backbone_path = ''google/matcha-base'', cfg_max_length = 512, cfg_pad_token_id = 0,
      cfg_decoder_start_token_id = 0, cfg_bos_token_id = 1, len_tokenizer = 50344,
      from_checkpoint_dir = None\<rparr>"

definition example_backbone_config :: backbone_config where
  "example_backbone_config =
     \<lparr>num_hidden_layers = 10,
      text_cfg = \<lparr>max_length = 512, is_decoder = True, pad_token_id = 0,
                  decoder_start_token_id = 0, bos_token_id = 1\<rparr>\<rparr>"

definition example_backbone_call ::
    "int \<Rightarrow> int \<Rightarrow> int \<Rightarrow> named_parameters \<Rightarrow> error + ((int, int) outputs \<times> named_parameters)" where
  "example_backbone_call fp am lb m = Inr (\<lparr>loss = 7, logits = 0\<rparr>, m)"

section \<open>Properties\<close>

lemma save_loop_keeps:
  "b n = Some v \<Longrightarrow> fst (save_loop ar eps sub ps (b, be)) n = Some v"
proof (induction ps arbitrary: b be)
  case Nil
  then show ?case by simp
next
  case (Cons a ps)
  obtain m q where a: "a = (m, q)" by (cases a)
  show ?case
  proof (cases "matched sub m q \<and> b m = None")
    case True
    with Cons.prems have "(b(m \<mapsto> data q)) n = Some v" by auto
    then have "fst (save_loop ar eps sub ps (b(m \<mapsto> data q), be')) n = Some v" for be'
      by (rule Cons.IH[of "b(m \<mapsto> data q)"])
    with True a show ?thesis by (simp add: Let_def)
  next
    case False
    with Cons a show ?thesis by auto
  qed
qed

lemma save_loop_eps_keeps:
  "b n \<noteq> None \<Longrightarrow> snd (save_loop ar eps sub ps (b, be)) n = be n"
  by (induction ps arbitrary: b be) (auto simp: Let_def)

lemma save_loop_dom:
  "dom (fst (save_loop ar eps sub ps (b, be))) =
     dom b \<union> {n. \<exists>p. (n, p) \<in> set ps \<and> matched sub n p}"
proof (induction ps arbitrary: b be)
  case Nil
  then show ?case by simp
next
  case (Cons a ps)
  obtain m q where a: "a = (m, q)" by (cases a)
  let ?S = "{n. \<exists>p. (n, p) \<in> set ps \<and> matched sub n p}"
  have split: "{n. \<exists>p. (n, p) \<in> set (a # ps) \<and> matched sub n p} =
      (if matched sub m q then insert m ?S else ?S)"
    using a by auto
  show ?case
    unfolding split using a by (auto simp: Let_def Cons.IH split: if_splits)
qed

lemma save_loop_dom_eq:
  "dom b = dom be \<Longrightarrow>
     dom (fst (save_loop ar eps sub ps (b, be))) = dom (snd (save_loop ar eps sub ps (b, be)))"
proof (induction ps arbitrary: b be)
  case Nil
  then show ?case by simp
next
  case (Cons a ps)
  obtain m q where a: "a = (m, q)" by (cases a)
  have "dom (b(m \<mapsto> x)) = dom (be(m \<mapsto> y))" for x y
    using Cons.prems by simp
  then have "dom (fst (save_loop ar eps sub ps (b(m \<mapsto> x), be(m \<mapsto> y)))) =
        dom (snd (save_loop ar eps sub ps (b(m \<mapsto> x), be(m \<mapsto> y))))" for x y
    by (rule Cons.IH)
  moreover have "dom (fst (save_loop ar eps sub ps (b, be))) =
        dom (snd (save_loop ar eps sub ps (b, be)))"
    using Cons.prems by (rule Cons.IH)
  ultimately show ?case using a by (simp add: Let_def)
qed

lemma save_loop_new:
  "distinct (map fst ps) \<Longrightarrow> (n, p) \<in> set ps \<Longrightarrow> matched sub n p \<Longrightarrow> b n = None \<Longrightarrow>
     fst (save_loop ar eps sub ps (b, be)) n = Some (data p) \<and>
     snd (save_loop ar eps sub ps (b, be)) n =
       Some (tensor_sub ar (data p) (scalar_mul ar eps (tensor_abs (data p))),
             tensor_add ar (data p) (scalar_mul ar eps (tensor_abs (data p))))"
proof (induction ps arbitrary: b be)
  case Nil
  then show ?case by simp
next
  case (Cons a ps)
  obtain m q where a: "a = (m, q)" by (cases a)
  show ?case
  proof (cases "m = n")
    case True
    with Cons.prems a have "q = p"
      by (auto simp: rev_image_eqI)
    with True a Cons.prems show ?thesis
      by (simp add: Let_def save_loop_keeps save_loop_eps_keeps)
  next
    case False
    with Cons a show ?thesis
      by (auto simp: Let_def)
  qed
qed

lemma save_loop_unmatched:
  "b n = None \<Longrightarrow> \<forall>p. (n, p) \<in> set ps \<longrightarrow> \<not> matched sub n p \<Longrightarrow>
     fst (save_loop ar eps sub ps (b, be)) n = None"
proof (induction ps arbitrary: b be)
  case Nil
  then show ?case by simp
next
  case (Cons a ps)
  obtain m q where a: "a = (m, q)" by (cases a)
  show ?case
  proof (cases "matched sub m q \<and> b m = None")
    case True
    with Cons.prems a have "m \<noteq> n" by auto
    with Cons.prems have "(b(m \<mapsto> data q)) n = None" by simp
    then have "fst (save_loop ar eps sub ps (b(m \<mapsto> data q), be')) n = None" for be'
      using Cons.prems(2) by (intro Cons.IH[of "b(m \<mapsto> data q)"]) auto
    with True a show ?thesis by (simp add: Let_def)
  next
    case False
    with Cons a show ?thesis by auto
  qed
qed

lemma model_save: "model (save ar st) = model st"
  by (simp add: save_def split: prod.splits)

lemma backup_save: "backup (save ar st) =
    fst (save_loop ar (adv_eps st) (adv_param st) (model st) (backup st, backup_eps st))"
  by (simp add: save_def split: prod.splits)

lemma backup_eps_save: "backup_eps (save ar st) =
    snd (save_loop ar (adv_eps st) (adv_param st) (model st) (backup st, backup_eps st))"
  by (simp add: save_def split: prod.splits)

lemma fields_save:
  "adv_param (save ar st) = adv_param st" "adv_lr (save ar st) = adv_lr st"
  "adv_eps (save ar st) = adv_eps st" "calls (save ar st) = calls st"
  by (simp_all add: save_def split: prod.splits)

lemma attack_loop_length:
  "attack_loop ar lr sub be ps = Inr m \<Longrightarrow> length m = length ps"
  by (induction ps arbitrary: m) (auto split: sum.splits)

lemma attack_loop_nth:
  "attack_loop ar lr sub be ps = Inr m \<Longrightarrow> i < length ps \<Longrightarrow>
     fst (m ! i) = fst (ps ! i) \<and>
     attack_param ar lr sub be (fst (ps ! i)) (snd (ps ! i)) = Inr (snd (m ! i))"
proof (induction ps arbitrary: m i)
  case Nil
  then show ?case by simp
next
  case (Cons a ps)
  then show ?case
    by (cases a; cases i) (auto split: sum.splits)
qed

lemma attack_param_ok:
  "(matched sub n p \<longrightarrow> be n \<noteq> None) \<Longrightarrow> \<exists>p'. attack_param ar lr sub be n p = Inr p'"
  by (auto simp: attack_param_def Let_def split: option.splits)

lemma attack_loop_ok:
  "\<forall>(n, p) \<in> set ps. matched sub n p \<longrightarrow> be n \<noteq> None \<Longrightarrow>
     \<exists>m. attack_loop ar lr sub be ps = Inr m"
proof (induction ps)
  case Nil
  then show ?case by simp
next
  case (Cons a ps)
  obtain n p where a: "a = (n, p)" by (cases a)
  from Cons.prems a obtain p' where "attack_param ar lr sub be n p = Inr p'"
    using attack_param_ok[of sub n p be ar lr] by auto
  moreover from Cons obtain m where "attack_loop ar lr sub be ps = Inr m" by auto
  ultimately show ?case using a by simp
qed

lemma attack_step_fields:
  "attack_step ar st = Inr st' \<Longrightarrow>
     backup st' = backup st \<and> backup_eps st' = backup_eps st \<and> calls st' = calls st \<and>
     adv_param st' = adv_param st \<and> adv_lr st' = adv_lr st \<and> adv_eps st' = adv_eps st"
  by (auto simp: attack_step_def split: sum.splits)

lemma attack_step_model:
  "attack_step ar st = Inr st' \<Longrightarrow>
     attack_loop ar (adv_lr st) (adv_param st) (backup_eps st) (model st) = Inr (model st')"
  by (auto simp: attack_step_def split: sum.splits)

lemma attack_after_save_ok:
  assumes "dom (backup st) = dom (backup_eps st)"
  shows "\<exists>st'. attack_step ar (save ar st) = Inr st'"
proof -
  let ?r = "save_loop ar (adv_eps st) (adv_param st) (model st) (backup st, backup_eps st)"
  have d: "dom (fst ?r) = dom (snd ?r)" using assms by (rule save_loop_dom_eq)
  have "snd ?r n \<noteq> None" if "(n, p) \<in> set (model st)" "matched (adv_param st) n p" for n p
  proof -
    from that have "n \<in> dom (fst ?r)" by (auto simp: save_loop_dom)
    with d show ?thesis by auto
  qed
  then have "\<forall>(n, p) \<in> set (model st). matched (adv_param st) n p \<longrightarrow> snd ?r n \<noteq> None"
    by blast
  then obtain m where
    "attack_loop ar (adv_lr st) (adv_param st) (snd ?r) (model st) = Inr m"
    using attack_loop_ok by blast
  then show ?thesis
    by (simp add: attack_step_def model_save backup_eps_save fields_save)
qed

lemma adversarial_pass_fields:
  "adversarial_pass ev batch st = Inr st' \<Longrightarrow>
     backup st' = backup st \<and> backup_eps st' = backup_eps st \<and>
     adv_param st' = adv_param st \<and> adv_lr st' = adv_lr st \<and> adv_eps st' = adv_eps st"
  by (auto simp: adversarial_pass_def split: sum.splits prod.splits)

lemma restore_param_fst: "fst (restore_param b np) = fst np"
  by (simp add: restore_param_def split: option.splits)

lemma restore_param_data:
  "b (fst np) = Some v \<Longrightarrow> data (snd (restore_param b np)) = v"
  by (simp add: restore_param_def)

lemma restore_param_none:
  "b (fst np) = None \<Longrightarrow> restore_param b np = np"
  by (simp add: restore_param_def)

lemma distinct_fst_unique:
  "distinct (map fst ps) \<Longrightarrow> (n, p) \<in> set ps \<Longrightarrow> (n, q) \<in> set ps \<Longrightarrow> p = q"
  by (meson eq_key_imp_eq_value)

text \<open>
  Claim C1. Take a model whose parameter names are distinct and a parameter that is
  matched when the cycle starts (its name contains the filter, \<^verbatim>\<open>requires_grad\<close> is
  set, its gradient is not None) and has no entry in the backup mapping yet. After a
  complete \<^verbatim>\<open>attack_backward\<close>, whatever the forward pass, the optimizer and the
  backward pass did to the model, the parameter of that name has exactly the value it
  had before the cycle.
\<close>

theorem restore_roundtrip:
  assumes dist: "distinct (map fst (model st))"
      and mem: "(name, p) \<in> set (model st)"
      and mat: "matched (adv_param st) name p"
      and fresh: "backup st name = None"
      and run: "attack_backward ar ev batch st = Inr st'"
      and after: "(name, q) \<in> set (model st')"
    shows "data q = data p"
proof (cases "adv_lr st = Fin 0")
  case True
  with run have "st' = st" by (simp add: attack_backward_def)
  with dist mem after show ?thesis by (auto dest: distinct_fst_unique)
next
  case False
  with run obtain st1 st2 where
    s1: "attack_step ar (save ar st) = Inr st1" and
    s2: "adversarial_pass ev batch st1 = Inr st2" and
    s3: "st' = restore st2"
    by (auto simp: attack_backward_def split: sum.splits)
  have "backup (save ar st) name = Some (data p)"
    using dist mem mat fresh by (simp add: backup_save save_loop_new)
  with s1 s2 have b: "backup st2 name = Some (data p)"
    by (simp add: attack_step_fields adversarial_pass_fields)
  from after s3 obtain np where "np \<in> set (model st2)"
    and np: "(name, q) = restore_param (backup st2) np"
    by (auto simp: restore_def)
  then have "fst np = name" by (metis fst_conv restore_param_fst)
  with b np show ?thesis
    by (metis restore_param_data snd_conv)
qed

text \<open>
  Claim C3. In every arithmetic of the tensor library: for a matched parameter whose
  gradient norm, as the library computes it, is neither zero nor not-a-number,
  \<^verbatim>\<open>_attack_step\<close> replaces the value by
  \<open>min (max (value + adv_lr \<cdot> grad / (\<parallel>grad\<parallel> + e) \<cdot> (\<parallel>value\<parallel> + e), lower), upper)\<close>,
  each operation being the library's, in this order, where both norms are those before
  the update and \<open>(lower, upper)\<close> is the entry of \<^verbatim>\<open>backup_eps\<close> for the name; the
  rest of the parameter is unchanged.
\<close>

theorem attack_step_update:
  assumes "i < length (model st)"
      and "model st ! i = (name, p)"
      and "matched (adv_param st) name p"
      and "grad p = Some g"
      and "torch_norm ar g \<noteq> Fin 0"
      and "\<not> s_isnan (torch_norm ar g)"
      and "backup_eps st name = Some (lower, upper)"
      and "attack_step ar st = Inr st'"
    shows "model st' ! i =
      (name, p\<lparr>data :=
         torch_min
           (torch_max
              (tensor_add ar (data p)
                 (tensor_mul_scalar ar
                    (tensor_div_scalar ar (scalar_mul ar (adv_lr st) g) (fl_add ar (torch_norm ar g) e))
                    (fl_add ar (torch_norm ar (data p)) e)))
              lower)
           upper\<rparr>)"
proof -
  from assms(8) have loop:
    "attack_loop ar (adv_lr st) (adv_param st) (backup_eps st) (model st) = Inr (model st')"
    by (rule attack_step_model)
  from attack_loop_nth[OF loop assms(1)] assms(2)
  have n: "fst (model st' ! i) = name"
    and a: "attack_param ar (adv_lr st) (adv_param st) (backup_eps st) name p = Inr (snd (model st' ! i))"
    by simp_all
  from a assms(3-7) have "snd (model st' ! i) =
      p\<lparr>data :=
         torch_min
           (torch_max
              (tensor_add ar (data p)
                 (tensor_mul_scalar ar
                    (tensor_div_scalar ar (scalar_mul ar (adv_lr st) g) (fl_add ar (torch_norm ar g) e))
                    (fl_add ar (torch_norm ar (data p)) e)))
              lower)
           upper\<rparr>"
    by (simp add: attack_param_def r_at_def Let_def)
  with n show ?thesis by (metis prod.collapse)
qed

text \<open>
  Claim C4. With a step size of zero \<^verbatim>\<open>attack_backward\<close> returns at once, whatever
  the forward pass, the optimizer and the accelerator are: the state after is the state
  before, so no parameter is changed, both mappings are what they were (empty, for a
  controller between two cycles) and no call is recorded.
\<close>

theorem zero_step_size_noop:
  assumes "adv_lr st = Fin 0"
  shows "attack_backward ar ev batch st = Inr st"
  using assms by (simp add: attack_backward_def)

text \<open>
  Claim C5. A second \<^verbatim>\<open>_save\<close> with no \<^verbatim>\<open>_restore\<close> in between, whatever
  happened to the model since the first, leaves the backup and the clamp interval of
  every name that the backup mapping holds after the first call as they are.
\<close>

theorem save_twice_keeps_first:
  assumes "backup (save ar st) name \<noteq> None"
  shows "backup (save ar ((save ar st)\<lparr>model := m\<rparr>)) name = backup (save ar st) name \<and>
         backup_eps (save ar ((save ar st)\<lparr>model := m\<rparr>)) name = backup_eps (save ar st) name"
proof -
  obtain b be where r: "save_loop ar (adv_eps st) (adv_param st) (model st)
      (backup st, backup_eps st) = (b, be)"
    by (cases "save_loop ar (adv_eps st) (adv_param st) (model st) (backup st, backup_eps st)")
  from assms obtain v where v: "b name = Some v"
    by (auto simp: backup_save r)
  then show ?thesis
    by (simp add: backup_save backup_eps_save fields_save r save_loop_keeps
        save_loop_eps_keeps)
qed

lemma reach_invariant:
  "reach ar ph st \<Longrightarrow>
     dom (backup st) = dom (backup_eps st) \<and>
     (ph = Idle \<longrightarrow> backup st = Map.empty \<and> backup_eps st = Map.empty)"
proof (induction rule: reach.induct)
  case (reach_init m sub lr eps)
  show ?case by (simp add: AWP_init_def)
next
  case (reach_save ph st)
  then show ?case by (simp add: backup_save backup_eps_save save_loop_dom_eq)
next
  case (reach_attack ph st st')
  then show ?case by (simp add: attack_step_fields)
next
  case (reach_restore ph st)
  show ?case by (simp add: restore_def)
next
  case (reach_outside ph st m c)
  then show ?case by simp
qed

lemma save_nonempty:
  assumes "(n, p) \<in> set (model st)" "matched (adv_param st) n p"
    and "dom (backup st) = dom (backup_eps st)"
  shows "backup (save ar st) \<noteq> Map.empty \<and> backup_eps (save ar st) \<noteq> Map.empty"
proof -
  let ?r = "save_loop ar (adv_eps st) (adv_param st) (model st) (backup st, backup_eps st)"
  from assms(1,2) have "n \<in> dom (fst ?r)" by (auto simp: save_loop_dom)
  moreover have "dom (fst ?r) = dom (snd ?r)" using assms(3) by (rule save_loop_dom_eq)
  ultimately have "fst ?r n \<noteq> None" "snd ?r n \<noteq> None" by auto
  then show ?thesis by (auto simp: backup_save backup_eps_save)
qed

text \<open>
  Claim C6. In every state that a controller reaches, the backup mapping and the
  clamp-interval mapping have the same names; both are empty while the controller is
  idle (from its construction to the first \<^verbatim>\<open>_save\<close>, and after each
  \<^verbatim>\<open>_restore\<close>); \<^verbatim>\<open>_restore\<close> empties both; and \<^verbatim>\<open>_save\<close> leaves both
  non-empty when the model has a matched parameter.
\<close>

theorem backup_lifecycle:
  assumes "reach ar ph st"
  shows "dom (backup st) = dom (backup_eps st) \<and>
         (ph = Idle \<longrightarrow> backup st = Map.empty \<and> backup_eps st = Map.empty) \<and>
         backup (restore st) = Map.empty \<and> backup_eps (restore st) = Map.empty \<and>
         ((\<exists>n p. (n, p) \<in> set (model st) \<and> matched (adv_param st) n p) \<longrightarrow>
            backup (save ar st) \<noteq> Map.empty \<and> backup_eps (save ar st) \<noteq> Map.empty)"
proof -
  from assms have inv: "dom (backup st) = dom (backup_eps st)"
    and idle: "ph = Idle \<longrightarrow> backup st = Map.empty \<and> backup_eps st = Map.empty"
    using reach_invariant by blast+
  have "backup (restore st) = Map.empty \<and> backup_eps (restore st) = Map.empty"
    by (simp add: restore_def)
  moreover have "backup (save ar st) \<noteq> Map.empty \<and> backup_eps (save ar st) \<noteq> Map.empty"
    if "\<exists>n p. (n, p) \<in> set (model st) \<and> matched (adv_param st) n p"
    using that save_nonempty inv by blast
  ultimately show ?thesis using inv idle by blast
qed

lemma attack_backward_reach:
  assumes "reach ar Idle st" "attack_backward ar ev batch st = Inr st'"
  shows "reach ar Idle st'"
proof (cases "adv_lr st = Fin 0")
  case True
  with assms show ?thesis by (simp add: attack_backward_def)
next
  case False
  with assms(2) obtain st1 st2 where
    s1: "attack_step ar (save ar st) = Inr st1" and
    s2: "adversarial_pass ev batch st1 = Inr st2" and
    s3: "st' = restore st2"
    by (auto simp: attack_backward_def split: sum.splits)
  from assms(1) have "reach ar Perturbed (save ar st)" by (rule reach_save)
  then have r1: "reach ar Perturbed st1" using s1 by (rule reach_attack)
  from s2 obtain m where "st2 = st1\<lparr>model := m, calls := calls st1 @ [Forward, ZeroGrad, Backward]\<rparr>"
    by (auto simp: adversarial_pass_def split: sum.splits prod.splits)
  with r1 have "reach ar Perturbed st2" by (simp add: reach_outside)
  with s3 show ?thesis by (simp add: reach_restore)
qed

text \<open>
  Claim C7. A matched parameter whose gradient norm, as the tensor library computes
  it, is zero or not-a-number is entered into the backup mapping by \<^verbatim>\<open>_save\<close>, and
  the \<^verbatim>\<open>_attack_step\<close> that follows returns and leaves the parameter as it was.
\<close>

theorem zero_norm_untouched:
  assumes "dom (backup st) = dom (backup_eps st)"
      and "i < length (model st)"
      and "model st ! i = (name, p)"
      and "matched (adv_param st) name p"
      and "grad p = Some g"
      and "torch_norm ar g = Fin 0 \<or> s_isnan (torch_norm ar g)"
    shows "\<exists>st'. attack_step ar (save ar st) = Inr st' \<and> model st' ! i = (name, p) \<and>
                 name \<in> dom (backup (save ar st)) \<and> name \<in> dom (backup st')"
proof -
  from assms(1) obtain st' where run: "attack_step ar (save ar st) = Inr st'"
    using attack_after_save_ok by blast
  then have loop: "attack_loop ar (adv_lr st) (adv_param st) (backup_eps (save ar st)) (model st) =
      Inr (model st')"
    using attack_step_model[OF run] by (simp add: model_save fields_save)
  from attack_loop_nth[OF loop assms(2)] assms(3)
  have "fst (model st' ! i) = name"
    and "attack_param ar (adv_lr st) (adv_param st) (backup_eps (save ar st)) name p =
      Inr (snd (model st' ! i))"
    by simp_all
  moreover have "attack_param ar (adv_lr st) (adv_param st) (backup_eps (save ar st)) name p = Inr p"
    using assms(4-6) by (auto simp: attack_param_def Let_def)
  ultimately have same: "model st' ! i = (name, p)"
    by (metis prod.collapse sum.inject(2))
  from assms(2,3) have "(name, p) \<in> set (model st)" by (metis nth_mem)
  with assms(4) have "name \<in> dom (backup (save ar st))"
    by (auto simp: backup_save save_loop_dom)
  moreover from run have "backup st' = backup (save ar st)" by (simp add: attack_step_fields)
  ultimately show ?thesis using run same by auto
qed

lemma restore_frame:
  assumes "j < length (model s)" "backup s (fst (model s ! j)) = None"
  shows "model (restore s) ! j = model s ! j"
  using assms by (simp add: restore_def restore_param_none)

text \<open>
  Claim C10. A parameter that is not matched at save time, and has no entry in the
  backup mapping, gets none from \<^verbatim>\<open>_save\<close>, which changes no parameter at all;
  \<^verbatim>\<open>_attack_step\<close> leaves it as it was; and \<^verbatim>\<open>_restore\<close> writes no parameter of
  that name, whatever the model is by then.
\<close>

theorem unmatched_untouched:
  assumes "distinct (map fst (model st))"
      and "i < length (model st)"
      and "model st ! i = (name, p)"
      and "\<not> matched (adv_param st) name p"
      and "backup st name = None"
    shows "backup (save ar st) name = None \<and> model (save ar st) = model st \<and>
           (\<forall>st1. attack_step ar (save ar st) = Inr st1 \<longrightarrow>
              model st1 ! i = (name, p) \<and> backup st1 name = None \<and>
              (\<forall>m j. j < length m \<and> fst (m ! j) = name \<longrightarrow>
                 model (restore (st1\<lparr>model := m\<rparr>)) ! j = m ! j))"
proof -
  from assms(2,3) have mem: "(name, p) \<in> set (model st)" by (metis nth_mem)
  have "\<forall>q. (name, q) \<in> set (model st) \<longrightarrow> \<not> matched (adv_param st) name q"
    using assms(1,4) mem by (auto dest: distinct_fst_unique)
  with assms(5) have b: "backup (save ar st) name = None"
    by (simp add: backup_save save_loop_unmatched)
  have "model st1 ! i = (name, p) \<and> backup st1 name = None \<and>
        (\<forall>m j. j < length m \<and> fst (m ! j) = name \<longrightarrow>
           model (restore (st1\<lparr>model := m\<rparr>)) ! j = m ! j)"
    if run: "attack_step ar (save ar st) = Inr st1" for st1
  proof -
    have loop: "attack_loop ar (adv_lr st) (adv_param st) (backup_eps (save ar st)) (model st) =
        Inr (model st1)"
      using attack_step_model[OF run] by (simp add: model_save fields_save)
    from attack_loop_nth[OF loop assms(2)] assms(3)
    have "fst (model st1 ! i) = name"
      and "attack_param ar (adv_lr st) (adv_param st) (backup_eps (save ar st)) name p =
        Inr (snd (model st1 ! i))"
      by simp_all
    moreover have "attack_param ar (adv_lr st) (adv_param st) (backup_eps (save ar st)) name p = Inr p"
      using assms(4) by (simp add: attack_param_def)
    ultimately have same: "model st1 ! i = (name, p)"
      by (metis prod.collapse sum.inject(2))
    from run b have b1: "backup st1 name = None" by (simp add: attack_step_fields)
    then have "model (restore (st1\<lparr>model := m\<rparr>)) ! j = m ! j"
      if "j < length m \<and> fst (m ! j) = name" for m j
      using that by (simp add: restore_frame)
    with same b1 show ?thesis by blast
  qed
  with b show ?thesis by (simp add: model_save)
qed

text \<open>
  A cycle returns when the two mappings hold the same names, the batch has the three
  keys and the forward pass, the optimizer and the accelerator return.
\<close>

lemma attack_backward_returns:
  assumes "dom (backup st) = dom (backup_eps st)"
      and "batch ''flattened_patches'' = Some fp"
      and "batch ''attention_mask'' = Some am"
      and "batch ''labels'' = Some lb"
      and "\<And>m. \<exists>l d m'. model_call ev fp am lb m = Inr ((l, d), m')"
      and "\<And>m. \<exists>m'. zero_grad ev m = Inr m'"
      and "\<And>l m. \<exists>m'. backward ev l m = Inr m'"
    shows "\<exists>st'. attack_backward ar ev batch st = Inr st'"
proof (cases "adv_lr st = Fin 0")
  case True
  then show ?thesis by (simp add: attack_backward_def)
next
  case False
  from assms(1) obtain st1 where s1: "attack_step ar (save ar st) = Inr st1"
    using attack_after_save_ok by blast
  obtain l d m1 where c1: "model_call ev fp am lb (model st1) = Inr ((l, d), m1)"
    using assms(5) by blast
  obtain m2 where c2: "zero_grad ev m1 = Inr m2"
    using assms(6) by blast
  obtain m3 where c3: "backward ev l m2 = Inr m3"
    using assms(7) by blast
  have "\<exists>st2. adversarial_pass ev batch st1 = Inr st2"
    using assms(2-4) c1 c2 c3 by (simp add: adversarial_pass_def batch_get_def)
  with False s1 show ?thesis
    by (auto simp: attack_backward_def)
qed

lemma s_le_trans: "s_le a b \<Longrightarrow> s_le b c \<Longrightarrow> s_le a c"
  by (cases a; cases b; cases c) auto

lemma s_clamp_within:
  assumes "\<not> s_isnan x" and "s_le lo hi"
  shows "s_le lo (s_min (s_max x lo) hi) \<and> s_le (s_min (s_max x lo) hi) hi"
  using assms by (cases x; cases lo; cases hi) (auto simp: s_max_def s_min_def)

lemma tensor_le_trans: "tensor_le a b \<Longrightarrow> tensor_le b c \<Longrightarrow> tensor_le a c"
proof -
  assume ab: "tensor_le a b" and bc: "tensor_le b c"
  have "\<And>x y z. s_le x y \<Longrightarrow> s_le y z \<Longrightarrow> s_le x z" by (rule s_le_trans)
  then show ?thesis
    using ab bc unfolding tensor_le_def by (rule list_all2_trans)
qed

lemma clamp_within:
  assumes "no_nan x" and "tensor_le lo hi" and "length x = length lo"
  shows "tensor_le lo (torch_min (torch_max x lo) hi) \<and>
         tensor_le (torch_min (torch_max x lo) hi) hi"
proof -
  from assms(2) have len: "length lo = length hi"
    by (simp add: tensor_le_def list_all2_lengthD)
  have "s_le (lo ! j) (torch_min (torch_max x lo) hi ! j) \<and>
        s_le (torch_min (torch_max x lo) hi ! j) (hi ! j)" if "j < length lo" for j
  proof -
    from that assms(1,3) have "\<not> s_isnan (x ! j)"
      by (simp add: no_nan_def list_all_length)
    moreover from that assms(2) have "s_le (lo ! j) (hi ! j)"
      by (simp add: tensor_le_def list_all2_conv_all_nth)
    ultimately show ?thesis
      using that assms(3) len by (simp add: torch_min_def torch_max_def s_clamp_within)
  qed
  with assms(3) len show ?thesis
    by (simp add: tensor_le_def list_all2_conv_all_nth torch_min_def torch_max_def)
qed

lemma perturbed_length:
  assumes "length g = length d"
  shows "length (tensor_add ar d (r_at ar lr g n1 n2)) = length d"
  using assms
  by (simp add: tensor_add_def r_at_def tensor_mul_scalar_def tensor_div_scalar_def
      scalar_mul_def)

lemma lower_length:
  "length (tensor_sub ar d (scalar_mul ar c (tensor_abs d))) = length d"
  by (simp add: tensor_sub_def scalar_mul_def tensor_abs_def)

text \<open>
  Claim C2, amended. Take a matched parameter, in any arithmetic of the tensor
  library. Let the interval that \<^verbatim>\<open>_save\<close> computes,
  \<open>[value - eps \<cdot> |value|, value + eps \<cdot> |value|]\<close>, hold the value it is computed from,
  and, when the gradient norm is neither zero nor not-a-number, let the sum of the
  value and the update have no not-a-number. Then \<^verbatim>\<open>_attack_step\<close> returns, and the
  value of the parameter lies element-wise within that interval, the one stored for its
  name.
\<close>

theorem perturbed_within_interval:
  assumes inv: "dom (backup st) = dom (backup_eps st)"
      and dist: "distinct (map fst (model st))"
      and i: "i < length (model st)"
      and at: "model st ! i = (name, p)"
      and mat: "matched (adv_param st) name p"
      and fresh: "backup st name = None"
      and g: "grad p = Some g"
      and shape: "length g = length (data p)"
      and holds: "tensor_le
            (tensor_sub ar (data p) (scalar_mul ar (adv_eps st) (tensor_abs (data p))))
            (data p) \<and>
          tensor_le (data p)
            (tensor_add ar (data p) (scalar_mul ar (adv_eps st) (tensor_abs (data p))))"
      and nonan: "torch_norm ar g \<noteq> Fin 0 \<and> \<not> s_isnan (torch_norm ar g) \<longrightarrow>
          no_nan (tensor_add ar (data p)
            (r_at ar (adv_lr st) g (torch_norm ar g) (torch_norm ar (data p))))"
    shows "\<exists>st' q. attack_step ar (save ar st) = Inr st' \<and> model st' ! i = (name, q) \<and>
        backup_eps st' name =
          Some (tensor_sub ar (data p) (scalar_mul ar (adv_eps st) (tensor_abs (data p))),
                tensor_add ar (data p) (scalar_mul ar (adv_eps st) (tensor_abs (data p)))) \<and>
        tensor_le (tensor_sub ar (data p) (scalar_mul ar (adv_eps st) (tensor_abs (data p))))
          (data q) \<and>
        tensor_le (data q)
          (tensor_add ar (data p) (scalar_mul ar (adv_eps st) (tensor_abs (data p))))"
proof -
  let ?lo = "tensor_sub ar (data p) (scalar_mul ar (adv_eps st) (tensor_abs (data p)))"
  let ?hi = "tensor_add ar (data p) (scalar_mul ar (adv_eps st) (tensor_abs (data p)))"
  let ?x = "tensor_add ar (data p)
      (r_at ar (adv_lr st) g (torch_norm ar g) (torch_norm ar (data p)))"
  from inv obtain st' where run: "attack_step ar (save ar st) = Inr st'"
    using attack_after_save_ok by blast
  from i at have mem: "(name, p) \<in> set (model st)" by (metis nth_mem)
  have be: "backup_eps (save ar st) name = Some (?lo, ?hi)"
    using dist mem mat fresh by (simp add: backup_eps_save save_loop_new)
  with run have be': "backup_eps st' name = Some (?lo, ?hi)"
    by (simp add: attack_step_fields)
  have loop: "attack_loop ar (adv_lr st) (adv_param st) (backup_eps (save ar st)) (model st) =
      Inr (model st')"
    using attack_step_model[OF run] by (simp add: model_save fields_save)
  from attack_loop_nth[OF loop i] at
  have nm: "fst (model st' ! i) = name"
    and ap: "attack_param ar (adv_lr st) (adv_param st) (backup_eps (save ar st)) name p =
      Inr (snd (model st' ! i))"
    by simp_all
  have "tensor_le ?lo (data (snd (model st' ! i))) \<and>
        tensor_le (data (snd (model st' ! i))) ?hi"
  proof (cases "torch_norm ar g \<noteq> Fin 0 \<and> \<not> s_isnan (torch_norm ar g)")
    case True
    with ap mat g be have "snd (model st' ! i) =
        p\<lparr>data := torch_min (torch_max ?x ?lo) ?hi\<rparr>"
      by (simp add: attack_param_def)
    moreover have "no_nan ?x" using nonan True by blast
    moreover have "tensor_le ?lo ?hi"
      using holds tensor_le_trans by blast
    moreover have "length ?x = length ?lo"
      using shape by (simp add: perturbed_length lower_length)
    ultimately show ?thesis by (simp add: clamp_within)
  next
    case False
    with ap mat g have "snd (model st' ! i) = p"
      by (auto simp: attack_param_def)
    then show ?thesis using holds by simp
  qed
  with run nm be' show ?thesis
    by (metis prod.collapse)
qed

lemma example_names:
  "sublist ''weight'' ''encoder.weight''" "\<not> sublist ''weight'' ''encoder.bias''"
  "sublist ''weight'' ''decoder.weight''" "sublist ''weight'' ''weight''"
  by (simp_all add: sublist_Cons_right)

lemmas example_defs =
  example_awp_def example_model_def example_env_def example_batch_def example_final_def
  AWP_init_def matched_def example_names

lemmas tensor_defs =
  scalar_mul_def tensor_abs_def tensor_sub_def tensor_add_def tensor_mul_scalar_def
  tensor_div_scalar_def torch_max_def torch_min_def s_max_def s_min_def
  r_at_def e_def exact_def exact_sub_def exact_norm_def signed_inf_def

lemmas step_defs =
  save_def attack_step_def attack_param_def restore_def restore_param_def
  adversarial_pass_def batch_get_def attack_backward_def

text \<open>
  Claim C1 on the example: the weight of the encoder is perturbed to 1.5 and is 1
  again after the cycle.
\<close>

theorem restore_roundtrip_witness:
  "distinct (map fst (model example_awp)) \<and>
   (''encoder.weight'', \<lparr>requires_grad = True, grad = Some [Fin 2], data = [Fin 1]\<rparr>)
      \<in> set (model example_awp) \<and>
   matched (adv_param example_awp) ''encoder.weight''
      \<lparr>requires_grad = True, grad = Some [Fin 2], data = [Fin 1]\<rparr> \<and>
   backup example_awp ''encoder.weight'' = None \<and>
   adv_lr example_awp \<noteq> Fin 0 \<and>
   attack_backward exact example_env example_batch example_awp = Inr example_final \<and>
   (''encoder.weight'', \<lparr>requires_grad = True, grad = None, data = [Fin 1]\<rparr>)
      \<in> set (model example_final) \<and>
   data \<lparr>requires_grad = True, grad = None, data = [Fin 1]\<rparr> =
     data \<lparr>requires_grad = True, grad = Some [Fin 2], data = [Fin 1]\<rparr>"
proof -
  have h1: "distinct (map fst (model example_awp))"
    by (simp add: example_defs)
  have h2: "(''encoder.weight'', \<lparr>requires_grad = True, grad = Some [Fin 2], data = [Fin 1]\<rparr>)
      \<in> set (model example_awp)"
    by (simp add: example_defs)
  have h3: "matched (adv_param example_awp) ''encoder.weight''
      \<lparr>requires_grad = True, grad = Some [Fin 2], data = [Fin 1]\<rparr>"
    by (simp add: example_defs)
  have h4: "backup example_awp ''encoder.weight'' = None"
    by (simp add: example_defs)
  have h5: "attack_backward exact example_env example_batch example_awp = Inr example_final"
    by (simp add: example_defs step_defs tensor_defs)
  have h6: "(''encoder.weight'', \<lparr>requires_grad = True, grad = None, data = [Fin 1]\<rparr>)
      \<in> set (model example_final)"
    by (simp add: example_defs)
  have h7: "adv_lr example_awp \<noteq> Fin 0"
    by (simp add: example_defs)
  from restore_roundtrip[OF h1 h2 h3 h4 h5 h6] h1 h2 h3 h4 h5 h6 h7 show ?thesis
    by blast
qed

text \<open>
  Claim C2 as stated fails. With an infinite gradient the norm is infinite, the update
  is infinity over infinity, the value becomes not-a-number, and not-a-number is not
  above the lower bound 0.5. With the tolerance -0.5 the lower bound 1.5 is above the
  upper bound 0.5, and the clamped value 0.5 is below the lower bound. No step that
  decides these two states rounds.
\<close>

theorem clamp_interval_counterexample:
  "attack_step exact (save exact inf_grad_awp) =
     Inr \<lparr>model = [(''weight'', \<lparr>requires_grad = True, grad = Some [PInf], data = [NaN]\<rparr>)],
          adv_param = ''weight'', adv_lr = Fin 1, adv_eps = Fin (1 / 2),
          backup = [''weight'' \<mapsto> [Fin 1]],
          backup_eps = [''weight'' \<mapsto> ([Fin (1 / 2)], [Fin (3 / 2)])],
          calls = []\<rparr> \<and>
   \<not> tensor_le [Fin (1 / 2)] [NaN] \<and>
   attack_step exact (save exact negative_eps_awp) =
     Inr \<lparr>model = [(''weight'', \<lparr>requires_grad = True, grad = Some [Fin 1], data = [Fin (1 / 2)]\<rparr>)],
          adv_param = ''weight'', adv_lr = Fin 1, adv_eps = Fin (- 1 / 2),
          backup = [''weight'' \<mapsto> [Fin 1]],
          backup_eps = [''weight'' \<mapsto> ([Fin (3 / 2)], [Fin (1 / 2)])],
          calls = []\<rparr> \<and>
   \<not> tensor_le [Fin (3 / 2)] [Fin (1 / 2)]"
  by (simp add: inf_grad_awp_def negative_eps_awp_def example_defs step_defs tensor_defs
      tensor_le_def)

text \<open>
  Claim C2 on the example: the weight of the encoder, 1 with gradient 2, is moved to
  about 2 and clamped to the upper bound 1.5 of its interval.
\<close>

theorem perturbed_within_interval_witness:
  "dom (backup example_awp) = dom (backup_eps example_awp) \<and>
   distinct (map fst (model example_awp)) \<and>
   0 < length (model example_awp) \<and>
   model example_awp ! 0 =
     (''encoder.weight'', \<lparr>requires_grad = True, grad = Some [Fin 2], data = [Fin 1]\<rparr>) \<and>
   matched (adv_param example_awp) ''encoder.weight''
     \<lparr>requires_grad = True, grad = Some [Fin 2], data = [Fin 1]\<rparr> \<and>
   tensor_le [Fin (1 / 2)] [Fin 1] \<and> tensor_le [Fin 1] [Fin (3 / 2)] \<and>
   torch_norm exact [Fin 2] = Fin 2 \<and>
   no_nan (tensor_add exact [Fin 1]
     (r_at exact (Fin 1) [Fin 2] (torch_norm exact [Fin 2]) (torch_norm exact [Fin 1]))) \<and>
   (\<exists>st' q. attack_step exact (save exact example_awp) = Inr st' \<and>
      model st' ! 0 = (''encoder.weight'', q) \<and>
      backup_eps st' ''encoder.weight'' = Some ([Fin (1 / 2)], [Fin (3 / 2)]) \<and>
      tensor_le [Fin (1 / 2)] (data q) \<and> tensor_le (data q) [Fin (3 / 2)])"
proof -
  let ?p = "\<lparr>requires_grad = True, grad = Some [Fin 2], data = [Fin 1]\<rparr>"
  let ?x = "tensor_add exact [Fin 1]
     (r_at exact (Fin 1) [Fin 2] (torch_norm exact [Fin 2]) (torch_norm exact [Fin 1]))"
  have h1: "dom (backup example_awp) = dom (backup_eps example_awp)"
    by (simp add: example_defs)
  have h2: "distinct (map fst (model example_awp))"
    by (simp add: example_defs)
  have h3: "0 < length (model example_awp)"
    by (simp add: example_defs)
  have h4: "model example_awp ! 0 = (''encoder.weight'', ?p)"
    by (simp add: example_defs)
  have h5: "matched (adv_param example_awp) ''encoder.weight'' ?p"
    by (simp add: example_defs)
  have h6: "backup example_awp ''encoder.weight'' = None"
    by (simp add: example_defs)
  have h7: "grad ?p = Some [Fin 2]" by simp
  have h8: "length [Fin 2] = length (data ?p)" by simp
  have lo: "tensor_sub exact (data ?p) (scalar_mul exact (adv_eps example_awp)
      (tensor_abs (data ?p))) = [Fin (1 / 2)]"
    by (simp add: example_defs tensor_defs)
  have hi: "tensor_add exact (data ?p) (scalar_mul exact (adv_eps example_awp)
      (tensor_abs (data ?p))) = [Fin (3 / 2)]"
    by (simp add: example_defs tensor_defs)
  have le: "tensor_le [Fin (1 / 2)] [Fin 1]" "tensor_le [Fin 1] [Fin (3 / 2)]"
    by (simp_all add: tensor_le_def)
  have h9: "tensor_le
        (tensor_sub exact (data ?p) (scalar_mul exact (adv_eps example_awp)
           (tensor_abs (data ?p))))
        (data ?p) \<and>
      tensor_le (data ?p)
        (tensor_add exact (data ?p) (scalar_mul exact (adv_eps example_awp)
           (tensor_abs (data ?p))))"
    unfolding lo hi using le by simp
  have n: "torch_norm exact [Fin 2] = Fin 2"
    by (simp add: tensor_defs)
  have x: "no_nan ?x"
    by (simp add: tensor_defs no_nan_def)
  have h10: "torch_norm exact [Fin 2] \<noteq> Fin 0 \<and> \<not> s_isnan (torch_norm exact [Fin 2]) \<longrightarrow>
      no_nan (tensor_add exact (data ?p)
        (r_at exact (adv_lr example_awp) [Fin 2] (torch_norm exact [Fin 2])
           (torch_norm exact (data ?p))))"
    using x by (simp add: example_defs)
  from perturbed_within_interval[OF h1 h2 h3 h4 h5 h6 h7 h8 h9 h10]
  have "\<exists>st' q. attack_step exact (save exact example_awp) = Inr st' \<and>
      model st' ! 0 = (''encoder.weight'', q) \<and>
      backup_eps st' ''encoder.weight'' = Some ([Fin (1 / 2)], [Fin (3 / 2)]) \<and>
      tensor_le [Fin (1 / 2)] (data q) \<and> tensor_le (data q) [Fin (3 / 2)]"
    unfolding lo hi .
  with h1 h2 h3 h4 h5 le n x show ?thesis
    by simp
qed

text \<open>
  Claim C3 on the example, after \<^verbatim>\<open>_save\<close>: the value 1 plus the update
  \<open>1 \<cdot> 2 / (2 + e) \<cdot> (1 + e)\<close>, clamped into \<open>[0.5, 1.5]\<close>, is 1.5.
\<close>

theorem attack_step_update_witness:
  "0 < length (model (save exact example_awp)) \<and>
   model (save exact example_awp) ! 0 =
     (''encoder.weight'', \<lparr>requires_grad = True, grad = Some [Fin 2], data = [Fin 1]\<rparr>) \<and>
   matched (adv_param (save exact example_awp)) ''encoder.weight''
     \<lparr>requires_grad = True, grad = Some [Fin 2], data = [Fin 1]\<rparr> \<and>
   torch_norm exact [Fin 2] = Fin 2 \<and>
   backup_eps (save exact example_awp) ''encoder.weight'' =
     Some ([Fin (1 / 2)], [Fin (3 / 2)]) \<and>
   attack_step exact (save exact example_awp) =
     Inr ((save exact example_awp)\<lparr>model :=
       [(''encoder.weight'',
         \<lparr>requires_grad = True, grad = Some [Fin 2], data = [Fin (3 / 2)]\<rparr>),
        (''encoder.bias'', \<lparr>requires_grad = True, grad = Some [Fin 1], data = [Fin 5]\<rparr>),
        (''decoder.weight'', \<lparr>requires_grad = True, grad = Some [Fin 0], data = [Fin 3]\<rparr>)]\<rparr>) \<and>
   model ((save exact example_awp)\<lparr>model :=
       [(''encoder.weight'',
         \<lparr>requires_grad = True, grad = Some [Fin 2], data = [Fin (3 / 2)]\<rparr>),
        (''encoder.bias'', \<lparr>requires_grad = True, grad = Some [Fin 1], data = [Fin 5]\<rparr>),
        (''decoder.weight'', \<lparr>requires_grad = True, grad = Some [Fin 0], data = [Fin 3]\<rparr>)]\<rparr>) ! 0 =
     (''encoder.weight'',
      \<lparr>requires_grad = True, grad = Some [Fin 2], data = [Fin (3 / 2)]\<rparr>)"
proof -
  let ?p = "\<lparr>requires_grad = True, grad = Some [Fin 2], data = [Fin 1]\<rparr>"
  let ?st' = "(save exact example_awp)\<lparr>model :=
       [(''encoder.weight'',
         \<lparr>requires_grad = True, grad = Some [Fin 2], data = [Fin (3 / 2)]\<rparr>),
        (''encoder.bias'', \<lparr>requires_grad = True, grad = Some [Fin 1], data = [Fin 5]\<rparr>),
        (''decoder.weight'', \<lparr>requires_grad = True, grad = Some [Fin 0], data = [Fin 3]\<rparr>)]\<rparr>"
  have h1: "0 < length (model (save exact example_awp))"
    by (simp add: example_defs step_defs tensor_defs)
  have h2: "model (save exact example_awp) ! 0 = (''encoder.weight'', ?p)"
    by (simp add: example_defs step_defs tensor_defs)
  have h3: "matched (adv_param (save exact example_awp)) ''encoder.weight'' ?p"
    by (simp add: example_defs step_defs tensor_defs)
  have h4: "grad ?p = Some [Fin 2]" by simp
  have n: "torch_norm exact [Fin 2] = Fin 2" by (simp add: tensor_defs)
  have h5: "torch_norm exact [Fin 2] \<noteq> Fin 0" by (simp add: n)
  have h6: "\<not> s_isnan (torch_norm exact [Fin 2])" by (simp add: n)
  have h7: "backup_eps (save exact example_awp) ''encoder.weight'' =
      Some ([Fin (1 / 2)], [Fin (3 / 2)])"
    by (simp add: example_defs step_defs tensor_defs)
  have h8: "attack_step exact (save exact example_awp) = Inr ?st'"
    by (simp add: example_defs step_defs tensor_defs)
  from attack_step_update[OF h1 h2 h3 h4 h5 h6 h7 h8]
  have "model ?st' ! 0 = (''encoder.weight'',
      \<lparr>requires_grad = True, grad = Some [Fin 2], data = [Fin (3 / 2)]\<rparr>)"
    by (simp add: example_defs step_defs tensor_defs)
  with h1 h2 h3 n h7 h8 show ?thesis by blast
qed

text \<open>Claim C4 on the example controller with its step size set to zero.\<close>

theorem zero_step_size_noop_witness:
  "adv_lr (example_awp\<lparr>adv_lr := Fin 0\<rparr>) = Fin 0 \<and>
   attack_backward exact example_env example_batch (example_awp\<lparr>adv_lr := Fin 0\<rparr>) =
     Inr (example_awp\<lparr>adv_lr := Fin 0\<rparr>) \<and>
   backup (example_awp\<lparr>adv_lr := Fin 0\<rparr>) = Map.empty \<and>
   backup_eps (example_awp\<lparr>adv_lr := Fin 0\<rparr>) = Map.empty \<and>
   calls (example_awp\<lparr>adv_lr := Fin 0\<rparr>) = []"
proof -
  have h: "adv_lr (example_awp\<lparr>adv_lr := Fin 0\<rparr>) = Fin 0" by simp
  from zero_step_size_noop[OF h, of exact example_env example_batch] h show ?thesis
    by (simp add: example_defs)
qed

text \<open>
  Claim C5 on the example: after \<^verbatim>\<open>_save\<close> the weight of the encoder is set to 7; a
  second \<^verbatim>\<open>_save\<close> keeps the backup 1 and the interval around it.
\<close>

theorem save_twice_keeps_first_witness:
  "backup (save exact example_awp) ''encoder.weight'' \<noteq> None \<and>
   backup (save exact ((save exact example_awp)\<lparr>model :=
       [(''encoder.weight'', \<lparr>requires_grad = True, grad = Some [Fin 2], data = [Fin 7]\<rparr>)]\<rparr>))
     ''encoder.weight'' = Some [Fin 1] \<and>
   backup_eps (save exact ((save exact example_awp)\<lparr>model :=
       [(''encoder.weight'', \<lparr>requires_grad = True, grad = Some [Fin 2], data = [Fin 7]\<rparr>)]\<rparr>))
     ''encoder.weight'' = Some ([Fin (1 / 2)], [Fin (3 / 2)])"
proof -
  have h: "backup (save exact example_awp) ''encoder.weight'' \<noteq> None"
    by (simp add: example_defs step_defs tensor_defs)
  have v: "backup (save exact example_awp) ''encoder.weight'' = Some [Fin 1]"
    "backup_eps (save exact example_awp) ''encoder.weight'' =
       Some ([Fin (1 / 2)], [Fin (3 / 2)])"
    by (simp_all add: example_defs step_defs tensor_defs)
  from save_twice_keeps_first[OF h] h v show ?thesis by simp
qed

text \<open>
  Claim C6 on the example: the new controller is idle, with both mappings empty;
  \<^verbatim>\<open>_save\<close> fills both and \<^verbatim>\<open>_restore\<close> empties them.
\<close>

theorem backup_lifecycle_witness:
  "reach exact Idle example_awp \<and>
   (''encoder.weight'', \<lparr>requires_grad = True, grad = Some [Fin 2], data = [Fin 1]\<rparr>)
      \<in> set (model example_awp) \<and>
   matched (adv_param example_awp) ''encoder.weight''
      \<lparr>requires_grad = True, grad = Some [Fin 2], data = [Fin 1]\<rparr> \<and>
   dom (backup example_awp) = dom (backup_eps example_awp) \<and>
   backup example_awp = Map.empty \<and> backup_eps example_awp = Map.empty \<and>
   backup (save exact example_awp) \<noteq> Map.empty \<and> backup_eps (save exact example_awp) \<noteq> Map.empty \<and>
   backup (restore example_awp) = Map.empty \<and> backup_eps (restore example_awp) = Map.empty"
proof -
  have r: "reach exact Idle example_awp"
    unfolding example_awp_def by (rule reach_init)
  have h2: "(''encoder.weight'', \<lparr>requires_grad = True, grad = Some [Fin 2], data = [Fin 1]\<rparr>)
      \<in> set (model example_awp)"
    by (simp add: example_defs)
  have h3: "matched (adv_param example_awp) ''encoder.weight''
      \<lparr>requires_grad = True, grad = Some [Fin 2], data = [Fin 1]\<rparr>"
    by (simp add: example_defs)
  from backup_lifecycle[OF r] r h2 h3 show ?thesis by blast
qed

text \<open>
  Claim C7 on the example: the weight of the decoder has the gradient 0; it is backed up
  and keeps its value 3.
\<close>

theorem zero_norm_untouched_witness:
  "dom (backup example_awp) = dom (backup_eps example_awp) \<and>
   2 < length (model example_awp) \<and>
   model example_awp ! 2 =
     (''decoder.weight'', \<lparr>requires_grad = True, grad = Some [Fin 0], data = [Fin 3]\<rparr>) \<and>
   matched (adv_param example_awp) ''decoder.weight''
     \<lparr>requires_grad = True, grad = Some [Fin 0], data = [Fin 3]\<rparr> \<and>
   torch_norm exact [Fin 0] = Fin 0 \<and>
   (\<exists>st'. attack_step exact (save exact example_awp) = Inr st' \<and>
      model st' ! 2 =
        (''decoder.weight'', \<lparr>requires_grad = True, grad = Some [Fin 0], data = [Fin 3]\<rparr>) \<and>
      ''decoder.weight'' \<in> dom (backup (save exact example_awp)) \<and>
      ''decoder.weight'' \<in> dom (backup st'))"
proof -
  let ?p = "\<lparr>requires_grad = True, grad = Some [Fin 0], data = [Fin 3]\<rparr>"
  have h1: "dom (backup example_awp) = dom (backup_eps example_awp)"
    by (simp add: example_defs)
  have h2: "2 < length (model example_awp)"
    by (simp add: example_defs)
  have h3: "model example_awp ! 2 = (''decoder.weight'', ?p)"
    by (simp add: example_defs)
  have h4: "matched (adv_param example_awp) ''decoder.weight'' ?p"
    by (simp add: example_defs)
  have h5: "grad ?p = Some [Fin 0]" by simp
  have n: "torch_norm exact [Fin 0] = Fin 0" by (simp add: tensor_defs)
  then have h6: "torch_norm exact [Fin 0] = Fin 0 \<or> s_isnan (torch_norm exact [Fin 0])" by simp
  from zero_norm_untouched[OF h1 h2 h3 h4 h5 h6] h1 h2 h3 h4 n show ?thesis by blast
qed

text \<open>
  Claim C10 on the example: the bias of the encoder does not contain the filter; it is
  not backed up and no method writes it.
\<close>

theorem unmatched_untouched_witness:
  "distinct (map fst (model example_awp)) \<and>
   1 < length (model example_awp) \<and>
   model example_awp ! 1 =
     (''encoder.bias'', \<lparr>requires_grad = True, grad = Some [Fin 1], data = [Fin 5]\<rparr>) \<and>
   \<not> matched (adv_param example_awp) ''encoder.bias''
     \<lparr>requires_grad = True, grad = Some [Fin 1], data = [Fin 5]\<rparr> \<and>
   backup example_awp ''encoder.bias'' = None \<and>
   backup (save exact example_awp) ''encoder.bias'' = None \<and>
   model (save exact example_awp) = model example_awp \<and>
   attack_step exact (save exact example_awp) =
     Inr ((save exact example_awp)\<lparr>model :=
       [(''encoder.weight'',
         \<lparr>requires_grad = True, grad = Some [Fin 2], data = [Fin (3 / 2)]\<rparr>),
        (''encoder.bias'', \<lparr>requires_grad = True, grad = Some [Fin 1], data = [Fin 5]\<rparr>),
        (''decoder.weight'', \<lparr>requires_grad = True, grad = Some [Fin 0], data = [Fin 3]\<rparr>)]\<rparr>) \<and>
   model (restore ((save exact example_awp)\<lparr>model :=
       [(''encoder.weight'',
         \<lparr>requires_grad = True, grad = Some [Fin 2], data = [Fin (3 / 2)]\<rparr>),
        (''encoder.bias'', \<lparr>requires_grad = True, grad = Some [Fin 1], data = [Fin 5]\<rparr>),
        (''decoder.weight'', \<lparr>requires_grad = True, grad = Some [Fin 0], data = [Fin 3]\<rparr>)]\<rparr>)) ! 1 =
     (''encoder.bias'', \<lparr>requires_grad = True, grad = Some [Fin 1], data = [Fin 5]\<rparr>)"
proof -
  let ?p = "\<lparr>requires_grad = True, grad = Some [Fin 1], data = [Fin 5]\<rparr>"
  let ?m = "[(''encoder.weight'',
         \<lparr>requires_grad = True, grad = Some [Fin 2], data = [Fin (3 / 2)]\<rparr>),
        (''encoder.bias'', \<lparr>requires_grad = True, grad = Some [Fin 1], data = [Fin 5]\<rparr>),
        (''decoder.weight'', \<lparr>requires_grad = True, grad = Some [Fin 0], data = [Fin 3]\<rparr>)]"
  let ?st1 = "(save exact example_awp)\<lparr>model := ?m\<rparr>"
  have h1: "distinct (map fst (model example_awp))"
    by (simp add: example_defs)
  have h2: "1 < length (model example_awp)"
    by (simp add: example_defs)
  have h3: "model example_awp ! 1 = (''encoder.bias'', ?p)"
    by (simp add: example_defs)
  have h4: "\<not> matched (adv_param example_awp) ''encoder.bias'' ?p"
    by (simp add: example_defs)
  have h5: "backup example_awp ''encoder.bias'' = None"
    by (simp add: example_defs)
  have run: "attack_step exact (save exact example_awp) = Inr ?st1"
    by (simp add: example_defs step_defs tensor_defs)
  note u = unmatched_untouched[OF h1 h2 h3 h4 h5]
  from u have a: "backup (save exact example_awp) ''encoder.bias'' = None"
    and b: "model (save exact example_awp) = model example_awp"
    by blast+
  from u run have "\<forall>m j. j < length m \<and> fst (m ! j) = ''encoder.bias'' \<longrightarrow>
      model (restore (?st1\<lparr>model := m\<rparr>)) ! j = m ! j"
    by blast
  then have "model (restore (?st1\<lparr>model := ?m\<rparr>)) ! 1 = ?m ! 1"
    by simp
  then have c: "model (restore ?st1) ! 1 = (''encoder.bias'', ?p)"
    by simp
  from h1 h2 h3 h4 h5 a b run c show ?thesis by blast
qed

lemma round_sig53_small:
  assumes "m < 2 ^ 53"
  shows "round_sig53 m = m"
proof -
  have "floorlog 2 m \<le> 53" using assms by (simp add: floorlog_le_iff)
  then show ?thesis by (simp add: round_sig53_def)
qed

lemma round_sig53_lower:
  assumes "m < 2 ^ 107" and "2 ^ 54 * c \<le> m"
  shows "2 ^ 54 * c \<le> round_sig53 m"
proof -
  define s where "s = floorlog 2 m - 53"
  define T :: nat where "T = 2 ^ s"
  define B :: nat where "B = 2 ^ 54"
  define a :: nat where "a = 2 ^ (54 - s)"
  have "floorlog 2 m \<le> 107" using assms(1) by (simp add: floorlog_le_iff)
  then have s: "s \<le> 54" by (simp add: s_def)
  have "(2::nat) ^ 54 = 2 ^ (54 - s) * 2 ^ s"
    using s by (simp flip: power_add)
  then have split: "B = a * T" by (simp only: B_def a_def T_def)
  have T: "0 < T" by (simp add: T_def)
  from assms(2) have "B * c \<le> m" by (simp only: B_def)
  then have "(a * c) * T \<le> m" by (simp add: split mult_ac)
  then have "a * c \<le> m div T"
    using T by (simp add: less_eq_div_iff_mult_less_eq)
  then have "(a * c) * T \<le> m div T * T"
    by (rule mult_le_mono1)
  then have low: "B * c \<le> m div T * T" by (simp add: split mult_ac)
  then have high: "B * c \<le> (m div T + 1) * T" by (simp add: algebra_simps)
  have "B * c \<le> round_sig53 m"
    unfolding round_sig53_def Let_def s_def[symmetric] T_def[symmetric]
    using low high \<open>B * c \<le> m\<close> by auto
  then show ?thesis by (simp only: B_def)
qed

lemma round_sig53_upper:
  assumes "m < 2 ^ 104"
  shows "round_sig53 m \<le> m + 2 ^ 50"
proof -
  define s where "s = floorlog 2 m - 53"
  define q where "q = m div 2 ^ s"
  define r where "r = m mod 2 ^ s"
  have "floorlog 2 m \<le> 104" using assms(1) by (simp add: floorlog_le_iff)
  then have s: "s \<le> 51" by (simp add: s_def)
  have m: "m = q * 2 ^ s + r"
    unfolding q_def r_def by (rule div_mult_mod_eq[symmetric])
  show ?thesis
  proof (cases "s = 0")
    case True
    then show ?thesis by (simp add: round_sig53_def s_def)
  next
    case False
    then have two: "(2::nat) ^ s = 2 * 2 ^ (s - 1)"
      by (cases s) simp_all
    have half: "(2::nat) ^ (s - 1) \<le> 2 ^ 50"
      using s by (intro power_increasing) simp_all
    have down: "q * 2 ^ s \<le> m + 2 ^ 50" using m by simp
    have up: "(q + 1) * 2 ^ s \<le> m + 2 ^ 50" if "2 ^ (s - 1) \<le> r"
    proof -
      have "(q + 1) * 2 ^ s = q * 2 ^ s + 2 * 2 ^ (s - 1)"
        using two by (simp add: algebra_simps)
      also have "\<dots> \<le> q * 2 ^ s + r + 2 ^ (s - 1)" using that by simp
      also have "\<dots> \<le> m + 2 ^ 50" using m half by simp
      finally show ?thesis .
    qed
    show ?thesis
      unfolding round_sig53_def Let_def s_def[symmetric] q_def[symmetric] r_def[symmetric]
      using False down up by (auto simp del: One_nat_def)
  qed
qed

lemma to_freeze_layer_floor:
  assumes "n < 2 ^ 50"
  shows "to_freeze_layer n = Inr (2 * n div 5)"
proof -
  define k where "k = 2 * n div 5"
  define P where "P = double_0_4 * n"
  have k: "5 * k \<le> 2 * n" "2 * n < 5 * k + 5"
    by (simp_all add: k_def)
  have x: "round_sig53 n = n"
    using assms by (intro round_sig53_small) simp
  have P5: "5 * P = 2 ^ 54 * (2 * n) + 2 * n"
    by (simp add: P_def double_0_4_def)
  have Pb: "P < 2 ^ 103"
    using assms by (simp add: P_def double_0_4_def)
  have lowP: "2 ^ 54 * k \<le> P"
    using P5 k(1) by simp
  have "2 ^ 54 * k \<le> round_sig53 P"
    using Pb lowP by (intro round_sig53_lower) simp_all
  moreover have "round_sig53 P \<le> P + 2 ^ 50"
    using Pb by (intro round_sig53_upper) simp
  moreover have "P + 2 ^ 50 < 2 ^ 54 * (k + 1)"
    using P5 k(2) assms by simp
  ultimately have "round_sig53 P div 2 ^ 54 = k"
    by (intro div_nat_eqI) (simp_all add: mult.commute)
  moreover have "\<not> (2::nat) ^ 1024 \<le> n" using assms by simp
  ultimately show ?thesis
    by (simp add: to_freeze_layer_def x P_def k_def)
qed

lemma freeze_encoder_nth:
  assumes "i < length (encoder_layer bb)"
  shows "encoder_layer (freeze_encoder k bb) ! i =
     (if i < k then map freeze (encoder_layer bb ! i) else encoder_layer bb ! i)"
proof (cases "i < k")
  case True
  with assms show ?thesis
    by (simp add: freeze_encoder_def nth_append)
next
  case False
  then have "min (length (encoder_layer bb)) k + (i - min (length (encoder_layer bb)) k) = i"
    using assms by simp
  with False assms show ?thesis
    by (simp add: freeze_encoder_def nth_append min_def)
qed

text \<open>
  Claim C8. Let the constructor have loaded a configuration with fewer than \<open>2 ^ 50\<close>
  hidden layers and a backbone, and let the resizing of the decoder return. Then the
  constructor returns a backbone in which the encoder layers before
  \<open>\<lfloor>0.4 \<cdot> num_hidden_layers\<rfloor> = (2 \<cdot> num_hidden_layers) div 5\<close> and the embeddings are the
  loaded ones with \<^verbatim>\<open>requires_grad\<close> off in every parameter, every later encoder
  layer is the loaded one, unchanged, and the decoder is what the resizing made of
  the loaded decoder. For ten hidden layers the count is 4.
\<close>

theorem freezing_policy:
  assumes load: "load_backbone lib c = Inr (bc, bb)"
      and bound: "num_hidden_layers bc < 2 ^ 50"
      and resize: "resize_token_embeddings lib (len_tokenizer c) (decoder bb) = Inr d"
    shows "to_freeze_layer 10 = Inr 4 \<and>
      (\<exists>m. Matcha_init lib c = Inr m \<and>
         length (encoder_layer m) = length (encoder_layer bb) \<and>
         (\<forall>i < length (encoder_layer bb).
            (i < 2 * num_hidden_layers bc div 5 \<longrightarrow>
               encoder_layer m ! i = map freeze (encoder_layer bb ! i) \<and>
               (\<forall>p \<in> set (encoder_layer m ! i). \<not> requires_grad p)) \<and>
            (2 * num_hidden_layers bc div 5 \<le> i \<longrightarrow>
               encoder_layer m ! i = encoder_layer bb ! i)) \<and>
         embeddings m = map freeze (embeddings bb) \<and>
         (\<forall>p \<in> set (embeddings m). \<not> requires_grad p) \<and>
         decoder m = d)"
proof -
  let ?k = "2 * num_hidden_layers bc div 5"
  let ?m = "(freeze_encoder ?k bb)\<lparr>decoder := d\<rparr>"
  have ten: "to_freeze_layer 10 = Inr 4"
    using to_freeze_layer_floor[of 10] by simp
  have k: "to_freeze_layer (num_hidden_layers bc) = Inr ?k"
    using bound by (rule to_freeze_layer_floor)
  have dec: "decoder (freeze_encoder ?k bb) = decoder bb"
    by (simp add: freeze_encoder_def)
  have init: "Matcha_init lib c = Inr ?m"
    using load k resize by (simp add: Matcha_init_def dec)
  have len: "length (encoder_layer ?m) = length (encoder_layer bb)"
    by (simp add: freeze_encoder_def)
  have layers: "(i < ?k \<longrightarrow>
        encoder_layer ?m ! i = map freeze (encoder_layer bb ! i) \<and>
        (\<forall>p \<in> set (encoder_layer ?m ! i). \<not> requires_grad p)) \<and>
      (?k \<le> i \<longrightarrow> encoder_layer ?m ! i = encoder_layer bb ! i)"
    if "i < length (encoder_layer bb)" for i
    using that by (auto simp: freeze_encoder_nth freeze_def)
  have emb: "embeddings ?m = map freeze (embeddings bb)"
    "\<forall>p \<in> set (embeddings ?m). \<not> requires_grad p"
    by (auto simp: freeze_encoder_def freeze_def)
  have "decoder ?m = d" by simp
  with ten init len layers emb show ?thesis by blast
qed

text \<open>
  Claim C8 on the example, with ten hidden layers and ten encoder layers: the layers 0
  to 3 and the embeddings are frozen, the layers 4 to 9 and the decoder are as loaded.
\<close>

theorem freezing_policy_witness:
  "load_backbone example_library example_cfg = Inr (example_backbone_config, example_backbone) \<and>
   num_hidden_layers example_backbone_config < 2 ^ 50 \<and>
   resize_token_embeddings example_library (len_tokenizer example_cfg)
     (decoder example_backbone) = Inr [trainable 11] \<and>
   Matcha_init example_library example_cfg =
     Inr \<lparr>encoder_layer =
        [[freeze (trainable 0)], [freeze (trainable 1)], [freeze (trainable 2)],
         [freeze (trainable 3)], [trainable 4], [trainable 5], [trainable 6],
         [trainable 7], [trainable 8], [trainable 9]],
      embeddings = [freeze (trainable 10)],
      decoder = [trainable 11]\<rparr> \<and>
   \<not> requires_grad (freeze (trainable 3)) \<and> requires_grad (trainable 4)"
proof -
  have h1: "load_backbone example_library example_cfg =
      Inr (example_backbone_config, example_backbone)"
    by (simp add: load_backbone_def example_library_def example_cfg_def
        example_backbone_config_def)
  have h2: "num_hidden_layers example_backbone_config < 2 ^ 50"
    by (simp add: example_backbone_config_def)
  have h3: "resize_token_embeddings example_library (len_tokenizer example_cfg)
      (decoder example_backbone) = Inr [trainable 11]"
    by (simp add: example_library_def example_backbone_def)
  from freezing_policy[OF h1 h2 h3] obtain m where
    m: "Matcha_init example_library example_cfg = Inr m"
    and len: "length (encoder_layer m) = length (encoder_layer example_backbone)"
    and layers: "\<forall>i < length (encoder_layer example_backbone).
        (i < 2 * num_hidden_layers example_backbone_config div 5 \<longrightarrow>
           encoder_layer m ! i = map freeze (encoder_layer example_backbone ! i) \<and>
           (\<forall>p \<in> set (encoder_layer m ! i). \<not> requires_grad p)) \<and>
        (2 * num_hidden_layers example_backbone_config div 5 \<le> i \<longrightarrow>
           encoder_layer m ! i = encoder_layer example_backbone ! i)"
    and emb: "embeddings m = map freeze (embeddings example_backbone)"
    and dec: "decoder m = [trainable 11]"
    by blast
  have four: "2 * num_hidden_layers example_backbone_config div 5 = 4"
    by (simp add: example_backbone_config_def)
  have l10: "length (encoder_layer m) = 10"
    using len by (simp add: example_backbone_def)
  have nth: "encoder_layer m ! i =
      [[freeze (trainable 0)], [freeze (trainable 1)], [freeze (trainable 2)],
       [freeze (trainable 3)], [trainable 4], [trainable 5], [trainable 6],
       [trainable 7], [trainable 8], [trainable 9]] ! i" if "i < 10" for i
  proof -
    from that have "i \<in> {0, 1, 2, 3, 4, 5, 6, 7, 8, 9}" by auto
    then show ?thesis
      using layers[unfolded four] by (auto simp: example_backbone_def)
  qed
  have "encoder_layer m =
      [[freeze (trainable 0)], [freeze (trainable 1)], [freeze (trainable 2)],
       [freeze (trainable 3)], [trainable 4], [trainable 5], [trainable 6],
       [trainable 7], [trainable 8], [trainable 9]]"
    using l10 nth by (intro nth_equalityI) simp_all
  with emb dec have "m = \<lparr>encoder_layer =
        [[freeze (trainable 0)], [freeze (trainable 1)], [freeze (trainable 2)],
         [freeze (trainable 3)], [trainable 4], [trainable 5], [trainable 6],
         [trainable 7], [trainable 8], [trainable 9]],
      embeddings = [freeze (trainable 10)],
      decoder = [trainable 11]\<rparr>"
    by (cases m) (simp add: example_backbone_def)
  with m h1 h2 h3 show ?thesis
    by (simp add: freeze_def trainable_def)
qed

text \<open>
  Claim C9. When the backbone's forward pass returns, \<^verbatim>\<open>Matcha.forward\<close> returns
  the backbone's loss as the total loss, with a mapping that holds this loss under
  \<^verbatim>\<open>loss_main\<close> and under \<^verbatim>\<open>loss_cls\<close>.
\<close>

theorem forward_loss:
  assumes "backbone_call flattened_patches attention_mask labels m = Inr (outs, m')"
  shows "\<exists>loss_dict.
      forward backbone_call flattened_patches attention_mask labels m =
        Inr ((loss outs, loss_dict), m') \<and>
      loss_dict ''loss_main'' = Some (loss outs) \<and>
      loss_dict ''loss_cls'' = Some (loss outs)"
  using assms by (simp add: forward_def Let_def)

lemma forward_raises:
  assumes "backbone_call flattened_patches attention_mask labels m = Inl err"
  shows "forward backbone_call flattened_patches attention_mask labels m = Inl err"
  using assms by (simp add: forward_def)

text \<open>Claim C9 on the example: the loss 7 of the backbone is returned three times.\<close>

theorem forward_loss_witness:
  "example_backbone_call 1 2 3 [] = Inr (\<lparr>loss = 7, logits = 0\<rparr>, []) \<and>
   (\<exists>loss_dict.
      forward example_backbone_call 1 2 3 [] = Inr ((7, loss_dict), []) \<and>
      loss_dict ''loss_main'' = Some 7 \<and> loss_dict ''loss_cls'' = Some 7)"
proof -
  have h: "example_backbone_call 1 2 3 [] = Inr (\<lparr>loss = 7, logits = 0\<rparr>, [])"
    by (simp add: example_backbone_call_def)
  from forward_loss[of example_backbone_call 1 2 3 "[]" "\<lparr>loss = 7, logits = 0\<rparr>" "[]"] h
  show ?thesis by simp
qed

end
